theory Spec2Isabelle
  imports Complex_Main "HOL-Library.Sublist" "HOL-Library.AList"
begin

section \<open>Python strings\<close>

text \<open>
  Text is a list of 8-bit characters, read as the code points below 256. The white space
  of \<^verbatim>\<open>str.strip\<close> is \<^verbatim>\<open>str.isspace\<close> on these: tab, line feed, vertical tab, form feed,
  carriage return, the four separators 0x1C..0x1F, the blank, and the two characters
  U+0085 and U+00A0. The case mappings \<^verbatim>\<open>lower\<close> and \<^verbatim>\<open>upper\<close> are modelled on the 26 ASCII
  letters and leave every other character as it is; the case mappings of letters outside
  ASCII are not modelled. \<^verbatim>\<open>startswith\<close> is \<^const>\<open>prefix\<close> and the substring test \<^verbatim>\<open>in\<close> is
  \<^const>\<open>sublist\<close>.
\<close>

definition is_space :: "char \<Rightarrow> bool" where
  "is_space c = (c \<in> set [CHR 0x09, CHR 0x0A, CHR 0x0B, CHR 0x0C, CHR 0x0D,
                            CHR 0x1C, CHR 0x1D, CHR 0x1E, CHR 0x1F, CHR 0x20,
                            CHR 0x85, CHR 0xA0])"

definition lower_char :: "char \<Rightarrow> char" where
  "lower_char c =
     (case map_of (zip ''ABCDEFGHIJKLMNOPQRSTUVWXYZ'' ''abcdefghijklmnopqrstuvwxyz'') c of
        Some d \<Rightarrow> d
      | None \<Rightarrow> c)"

definition upper_char :: "char \<Rightarrow> char" where
  "upper_char c =
     (case map_of (zip ''abcdefghijklmnopqrstuvwxyz'' ''ABCDEFGHIJKLMNOPQRSTUVWXYZ'') c of
        Some d \<Rightarrow> d
      | None \<Rightarrow> c)"

definition lower :: "string \<Rightarrow> string" where
  "lower s = map lower_char s"

definition upper :: "string \<Rightarrow> string" where
  "upper s = map upper_char s"

definition lstrip :: "string \<Rightarrow> string" where
  "lstrip s = dropWhile is_space s"

definition rstrip :: "string \<Rightarrow> string" where
  "rstrip s = rev (dropWhile is_space (rev s))"

definition strip :: "string \<Rightarrow> string" where
  "strip s = rstrip (lstrip s)"

text \<open>\<^verbatim>\<open>s.split('\n')\<close>: the pieces between line feeds; never the empty list.\<close>

fun split_nl :: "string \<Rightarrow> string list" where
  "split_nl [] = [[]]"
| "split_nl (c # cs) =
     (if c = CHR 0x0A then [] # split_nl cs
      else (case split_nl cs of
              [] \<Rightarrow> [[c]]
            | l # ls \<Rightarrow> (c # l) # ls))"

section \<open>Format detection (\<^verbatim>\<open>MolView._detect_format\<close>)\<close>

definition pdb_keywords :: "string list" where
  "pdb_keywords =
     [''HEADER'', ''TITLE'', ''COMPND'', ''SOURCE'', ''KEYWDS'', ''EXPDTA'',
      ''AUTHOR'', ''REVDAT'', ''REMARK'', ''SEQRES'', ''HELIX'', ''SHEET'',
      ''ATOM'', ''HETATM'', ''MODEL'', ''CRYST1'', ''ORIGX'', ''SCALE'', ''MTRIX'']"

text \<open>
  The scanned lines:
  \<^verbatim>\<open>[line.strip() for line in data.strip().split('\n')[:50] if line.strip()]\<close>.
\<close>

definition scan_lines :: "string \<Rightarrow> string list" where
  "scan_lines data = [strip line. line \<leftarrow> take 50 (split_nl (strip data)), strip line \<noteq> []]"

text \<open>
  The body of \<^verbatim>\<open>_detect_format\<close>, branch by branch in the order of the source. Each
  \<^verbatim>\<open>for\<close> loop that returns at its first hit is \<^const>\<open>list_ex\<close> over the lines it visits.
\<close>

definition detect_format :: "string \<Rightarrow> string" where
  "detect_format data =
     (let lines = scan_lines data in
      case lines of
        [] \<Rightarrow> ''pdb''
      | first_line # _ \<Rightarrow>
          if prefix ''data_'' (lower first_line) then ''mmcif''
          else if list_ex (\<lambda>line. prefix ''loop_'' (lower line)
                                \<or> prefix ''_atom_site'' (lower line)
                                \<or> prefix ''_cell'' (lower line)) lines
          then ''mmcif''
          else
            let data_upper = upper data in
            if sublist ''$$$$'' data_upper \<or> sublist ''M  END'' data_upper then ''sdf''
            else if sublist ''V2000'' data_upper \<or> sublist ''V3000'' data_upper then ''sdf''
            else if list_ex (\<lambda>line. length line \<ge> 6
                                    \<and> upper (strip (take 6 line)) \<in> set pdb_keywords)
                            (take 20 lines)
            then ''pdb''
            else if list_ex (\<lambda>line. length line \<ge> 4
                                    \<and> upper (strip (take 6 line)) \<in> set [''ATOM'', ''HETATM''])
                            lines
            then ''pdb''
            else ''pdb'')"

section \<open>Errors\<close>

text \<open>
  One constructor for each place where the modelled code raises, carrying what the message
  of the exception is built from. \<open>IndexError\<close> and \<open>TypeError\<close> are the exceptions of the
  Python run time; \<open>HTTPError\<close> is \<^verbatim>\<open>urllib.error.HTTPError\<close> with its status code and the
  rest of the response; \<open>OtherException\<close> is any other exception of the transport. All the
  others are raised as \<^verbatim>\<open>ValueError\<close>.
\<close>

datatype error =
    UnsupportedFormat string
  | OutOfBounds int int int int
  | GridFull int int
  | UnknownColorMode string
  | UnknownPalette string
  | InvalidLiteral string
  | InvalidLayout string
  | BadFetchFormat string
  | PdbNotFound string
  | AlphaFoldNotFound string int
  | IndexError
  | TypeError
  | HTTPError int string
  | OtherException string

fun is_ValueError :: "error \<Rightarrow> bool" where
  "is_ValueError IndexError = False"
| "is_ValueError TypeError = False"
| "is_ValueError (HTTPError code info) = False"
| "is_ValueError (OtherException info) = False"
| "is_ValueError e = True"

section \<open>Numbers and text\<close>

text \<open>\<^verbatim>\<open>str(n)\<close> for an integer, as the f-strings of the source format it.\<close>

definition digit_char :: "nat \<Rightarrow> char" where
  "digit_char d = ''0123456789abcdef'' ! d"

function str_nat :: "nat \<Rightarrow> string" where
  "str_nat n = (if n < 10 then [digit_char n] else str_nat (n div 10) @ [digit_char (n mod 10)])"
  by pat_completeness auto
termination
  by (relation "measure id") auto

declare str_nat.simps [simp del]

definition str_int :: "int \<Rightarrow> string" where
  "str_int i = (if i < 0 then CHR ''-'' # str_nat (nat (- i)) else str_nat (nat i))"

text \<open>The format specification \<^verbatim>\<open>02x\<close>: lower-case hexadecimal, zero-filled to two places.\<close>

function hex_nat :: "nat \<Rightarrow> string" where
  "hex_nat n = (if n < 16 then [digit_char n] else hex_nat (n div 16) @ [digit_char (n mod 16)])"
  by pat_completeness auto
termination
  by (relation "measure id") auto

declare hex_nat.simps [simp del]

definition fmt_02x :: "int \<Rightarrow> string" where
  "fmt_02x i =
     (if i < 0 then CHR ''-'' # hex_nat (nat (- i))
      else if i < 16 then CHR ''0'' # hex_nat (nat i)
      else hex_nat (nat i))"

text \<open>
  \<^verbatim>\<open>int(s, 16)\<close>: white space around, an optional sign, an optional prefix \<^verbatim>\<open>0x\<close> that one
  underscore may follow, then hexadecimal digits with single underscores between them.
  \<open>None\<close> is the \<^verbatim>\<open>ValueError\<close> of a malformed literal. The white space that \<^verbatim>\<open>int\<close> skips
  is not that of \<^verbatim>\<open>str.strip\<close>: the conversion replaces the white space outside ASCII by
  blanks and then skips tab, line feed, vertical tab, form feed, carriage return and blank;
  the separators 0x1C..0x1F are not skipped.
\<close>

definition is_int_space :: "char \<Rightarrow> bool" where
  "is_int_space c = (c \<in> set [CHR 0x09, CHR 0x0A, CHR 0x0B, CHR 0x0C, CHR 0x0D, CHR 0x20,
                                CHR 0x85, CHR 0xA0])"

definition int_strip :: "string \<Rightarrow> string" where
  "int_strip s = rev (dropWhile is_int_space (rev (dropWhile is_int_space s)))"

definition hex_digit :: "char \<Rightarrow> int option" where
  "hex_digit c =
     map_of (zip ''0123456789abcdefABCDEF''
                 [0, 1, 2, 3, 4, 5, 6, 7, 8, 9, 10, 11, 12, 13, 14, 15, 10, 11, 12, 13, 14, 15]) c"

definition hex_body_ok :: "string \<Rightarrow> bool" where
  "hex_body_ok b \<longleftrightarrow>
     b \<noteq> [] \<and> hd b \<noteq> CHR ''_'' \<and> last b \<noteq> CHR ''_'' \<and> \<not> sublist ''__'' b
     \<and> list_all (\<lambda>c. c = CHR ''_'' \<or> hex_digit c \<noteq> None) b"

definition hex_value :: "string \<Rightarrow> int" where
  "hex_value b =
     foldl (\<lambda>acc c. 16 * acc + (case hex_digit c of Some d \<Rightarrow> d | None \<Rightarrow> 0)) 0
           (filter (\<lambda>c. c \<noteq> CHR ''_'') b)"

definition py_int16 :: "string \<Rightarrow> int option" where
  "py_int16 s =
     (let t = int_strip s;
          neg = (t \<noteq> [] \<and> hd t = CHR ''-'');
          u = (if t \<noteq> [] \<and> (hd t = CHR ''-'' \<or> hd t = CHR ''+'') then tl t else t);
          b = (case u of
                 c0 # x # r \<Rightarrow>
                   if c0 = CHR ''0'' \<and> (x = CHR ''x'' \<or> x = CHR ''X'')
                   then (case r of [] \<Rightarrow> r | c # r' \<Rightarrow> if c = CHR ''_'' then r' else r)
                   else u
               | _ \<Rightarrow> u)
      in if hex_body_ok b then Some (if neg then - hex_value b else hex_value b) else None)"

text \<open>\<^verbatim>\<open>int(x)\<close> on a number with a fractional part truncates toward zero.\<close>

definition py_trunc :: "rat \<Rightarrow> int" where
  "py_trunc x = (if x \<ge> 0 then \<lfloor>x\<rfloor> else \<lceil>x\<rceil>)"

text \<open>\<^verbatim>\<open>xs[i]\<close>: a negative index counts from the end, an index out of range raises.\<close>

definition py_index :: "'a list \<Rightarrow> int \<Rightarrow> error + 'a" where
  "py_index xs i =
     (let j = (if i < 0 then i + int (length xs) else i)
      in if 0 \<le> j \<and> j < int (length xs) then Inr (xs ! nat j) else Inl IndexError)"

section \<open>Color themes (\<^verbatim>\<open>colors.py\<close>)\<close>

definition RAINBOW_PALETTES :: "(string \<times> string list) list" where
  "RAINBOW_PALETTES =
     [(''rainbow'', [''#0000FF'', ''#00FFFF'', ''#00FF00'', ''#FFFF00'', ''#FF8000'', ''#FF0000'']),
      (''viridis'', [''#440154'', ''#482878'', ''#3e4989'', ''#31688e'', ''#26828e'', ''#1f9e89'',
                     ''#35b779'', ''#6ece58'', ''#b5de2b'', ''#fde724'']),
      (''plasma'', [''#0d0887'', ''#46039f'', ''#7201a8'', ''#9c179e'', ''#bd3786'', ''#d8576b'',
                    ''#ed7953'', ''#fb9f3a'', ''#fdca26'', ''#f0f921'']),
      (''magma'', [''#000004'', ''#1c1044'', ''#4f127b'', ''#812581'', ''#b5367a'', ''#e55964'',
                   ''#fb8861'', ''#fec287'', ''#fcfdbf'']),
      (''blue-red'', [''#0000FF'', ''#FF0000'']),
      (''pastel'', [''#FFB3BA'', ''#FFDFBA'', ''#FFFFBA'', ''#BAFFC9'', ''#BAE1FF'', ''#E0BBE4''])]"

definition SECONDARY_STRUCTURE_COLORS :: "(string \<times> string) list" where
  "SECONDARY_STRUCTURE_COLORS =
     [(''helix'', ''#0FA3FF''), (''sheet'', ''#24B235''), (''coil'', ''#E8E8E8'')]"

text \<open>
  The keyword arguments that \<^verbatim>\<open>get_color_theme\<close> reads, each absent (\<open>None\<close>) or given.
  Colors and palette names are strings; \<^verbatim>\<open>custom_colors\<close> is a dictionary from chain
  identifiers to colors, kept as an association list.
\<close>

record kwargs =
  color :: "string option"
  custom_colors :: "(string \<times> string) list option"
  helix_color :: "string option"
  sheet_color :: "string option"
  coil_color :: "string option"
  palette :: "string option"

definition no_kwargs :: kwargs where
  "no_kwargs = \<lparr>color = None, custom_colors = None, helix_color = None,
                 sheet_color = None, coil_color = None, palette = None\<rparr>"

text \<open>The theme classes, each with the attributes its constructor stores.\<close>

datatype color_theme =
    CustomColorTheme string
  | ElementColorTheme
  | ResidueColorTheme
  | ChainColorTheme "(string \<times> string) list"
  | SecondaryStructureTheme string string string
  | RainbowColorTheme string "string list"
  | PLDDTColorTheme

text \<open>The values that end up in a configuration: what \<^verbatim>\<open>json.dumps\<close> will serialise.\<close>

datatype json =
    JInt int
  | JStr string
  | JList "json list"
  | JObj "(string \<times> json) list"

record molstar_config =
  config_name :: string
  config_params :: "(string \<times> json) list"

text \<open>\<^verbatim>\<open>_hex_to_int\<close>: \<^verbatim>\<open>int(hex_color.replace('#', ''), 16)\<close>.\<close>

definition hex_to_int :: "string \<Rightarrow> error + int" where
  "hex_to_int hex_color =
     (let digits = filter (\<lambda>c. c \<noteq> CHR ''#'') hex_color
      in case py_int16 digits of
           None \<Rightarrow> Inl (InvalidLiteral digits)
         | Some n \<Rightarrow> Inr n)"

text \<open>\<^verbatim>\<open>x or default\<close> on an optional string: \<^verbatim>\<open>None\<close> and the empty string are false.\<close>

definition or_default :: "string option \<Rightarrow> string \<Rightarrow> string" where
  "or_default x d = (case x of None \<Rightarrow> d | Some s \<Rightarrow> if s = [] then d else s)"

definition secondary_default :: "string \<Rightarrow> string" where
  "secondary_default k = (case map_of SECONDARY_STRUCTURE_COLORS k of Some c \<Rightarrow> c | None \<Rightarrow> [])"

text \<open>The constructor of \<^verbatim>\<open>RainbowColorTheme\<close> rejects a palette outside the registry.\<close>

definition new_RainbowColorTheme :: "string \<Rightarrow> error + color_theme" where
  "new_RainbowColorTheme p =
     (case map_of RAINBOW_PALETTES p of
        None \<Rightarrow> Inl (UnknownPalette p)
      | Some colors \<Rightarrow> Inr (RainbowColorTheme p colors))"

definition get_color_theme :: "string \<Rightarrow> kwargs \<Rightarrow> error + color_theme" where
  "get_color_theme mode0 kw =
     (let mode = lower mode0 in
      if mode = ''custom'' then
        Inr (CustomColorTheme (case color kw of None \<Rightarrow> ''#4ECDC4'' | Some c \<Rightarrow> c))
      else if mode = ''element'' then Inr ElementColorTheme
      else if mode = ''residue'' then Inr ResidueColorTheme
      else if mode = ''chain'' then
        Inr (ChainColorTheme (case custom_colors kw of None \<Rightarrow> [] | Some m \<Rightarrow> m))
      else if mode = ''secondary'' then
        Inr (SecondaryStructureTheme
               (or_default (helix_color kw) (secondary_default ''helix''))
               (or_default (sheet_color kw) (secondary_default ''sheet''))
               (or_default (coil_color kw) (secondary_default ''coil'')))
      else if mode = ''rainbow'' then
        new_RainbowColorTheme (case palette kw of None \<Rightarrow> ''rainbow'' | Some p \<Rightarrow> p)
      else if mode = ''plddt'' then Inr PLDDTColorTheme
      else Inl (UnknownColorMode mode))"

text \<open>
  \<^verbatim>\<open>to_molstar_config\<close> of each class. The dictionary literal of the secondary-structure
  theme converts the helix color first, then the sheet color, then the coil color; the
  first conversion that fails raises.
\<close>

fun to_molstar_config :: "color_theme \<Rightarrow> error + molstar_config" where
  "to_molstar_config (CustomColorTheme c) =
     (case hex_to_int c of
        Inl e \<Rightarrow> Inl e
      | Inr n \<Rightarrow> Inr \<lparr>config_name = ''uniform'', config_params = [(''value'', JInt n)]\<rparr>)"
| "to_molstar_config ElementColorTheme =
     Inr \<lparr>config_name = ''element-symbol'', config_params = []\<rparr>"
| "to_molstar_config ResidueColorTheme =
     Inr \<lparr>config_name = ''residue-name'', config_params = []\<rparr>"
| "to_molstar_config (ChainColorTheme cc) =
     (if cc \<noteq> [] then
        Inr \<lparr>config_name = ''custom-chain-colors'',
             config_params = [(''colors'', JObj (map (\<lambda>(k, v). (k, JStr v)) cc))]\<rparr>
      else Inr \<lparr>config_name = ''chain-id'', config_params = []\<rparr>)"
| "to_molstar_config (SecondaryStructureTheme helix sheet coil) =
     (case hex_to_int helix of
        Inl e \<Rightarrow> Inl e
      | Inr h \<Rightarrow>
         (case hex_to_int sheet of
            Inl e \<Rightarrow> Inl e
          | Inr s \<Rightarrow>
             (case hex_to_int coil of
                Inl e \<Rightarrow> Inl e
              | Inr c \<Rightarrow>
                  Inr \<lparr>config_name = ''secondary-structure'',
                       config_params =
                         [(''colors'',
                           JObj [(''name'', JStr ''custom''),
                                 (''params'',
                                  JObj [(''alphaHelix'', JInt h), (''threeTenHelix'', JInt h),
                                        (''piHelix'', JInt h), (''betaStrand'', JInt s),
                                        (''betaTurn'', JInt s), (''coil'', JInt c),
                                        (''bend'', JInt c), (''turn'', JInt c),
                                        (''dna'', JInt c), (''rna'', JInt c),
                                        (''carbohydrate'', JInt c)])]),
                          (''saturation'', JInt (- 1)),
                          (''lightness'', JInt 0)]\<rparr>)))"
| "to_molstar_config (RainbowColorTheme p colors) =
     Inr \<lparr>config_name = ''rainbow-sequence'',
          config_params = [(''palette'', JStr p), (''colors'', JList (map JStr colors))]\<rparr>"
| "to_molstar_config PLDDTColorTheme =
     Inr \<lparr>config_name = ''plddt-confidence'', config_params = []\<rparr>"

subsection \<open>Gradients\<close>

text \<open>
  Python computes the positions along the gradient in floating point. The model computes
  them in exact rational arithmetic (\<^typ>\<open>rat\<close>); the two agree whenever every intermediate
  value is a binary fraction that a double holds exactly.
\<close>

text \<open>\<^verbatim>\<open>hex_to_rgb\<close>: strip the leading \<^verbatim>\<open>#\<close> characters, read three two-character slices.\<close>

definition channel :: "string \<Rightarrow> nat \<Rightarrow> error + int" where
  "channel h i =
     (let piece = take 2 (drop i h)
      in case py_int16 piece of None \<Rightarrow> Inl (InvalidLiteral piece) | Some n \<Rightarrow> Inr n)"

definition hex_to_rgb :: "string \<Rightarrow> error + (int \<times> int \<times> int)" where
  "hex_to_rgb hex_color =
     (let h = dropWhile (\<lambda>c. c = CHR ''#'') hex_color
      in case channel h 0 of
           Inl e \<Rightarrow> Inl e
         | Inr r \<Rightarrow>
            (case channel h 2 of
               Inl e \<Rightarrow> Inl e
             | Inr g \<Rightarrow>
                (case channel h 4 of
                   Inl e \<Rightarrow> Inl e
                 | Inr b \<Rightarrow> Inr (r, g, b))))"

definition rgb_to_hex :: "int \<Rightarrow> int \<Rightarrow> int \<Rightarrow> string" where
  "rgb_to_hex r g b = upper (CHR ''#'' # fmt_02x r @ fmt_02x g @ fmt_02x b)"

definition interpolate_color :: "string \<Rightarrow> string \<Rightarrow> rat \<Rightarrow> error + string" where
  "interpolate_color color1 color2 factor =
     (case hex_to_rgb color1 of
        Inl e \<Rightarrow> Inl e
      | Inr (r1, g1, b1) \<Rightarrow>
         (case hex_to_rgb color2 of
            Inl e \<Rightarrow> Inl e
          | Inr (r2, g2, b2) \<Rightarrow>
              Inr (rgb_to_hex (py_trunc (of_int r1 + factor * of_int (r2 - r1)))
                              (py_trunc (of_int g1 + factor * of_int (g2 - g1)))
                              (py_trunc (of_int b1 + factor * of_int (b2 - b1))))))"

text \<open>One round of the loop of \<^verbatim>\<open>generate_gradient\<close>: the color at step \<open>i\<close>.\<close>

definition gradient_color :: "string list \<Rightarrow> int \<Rightarrow> int \<Rightarrow> error + string" where
  "gradient_color colors steps i =
     (let segment_count = int (length colors) - 1;
          position = of_int i / of_int (steps - 1) * of_int segment_count;
          segment_index = py_trunc position;
          segment_position = position - of_int segment_index
      in if segment_index \<ge> segment_count then py_index colors (- 1)
         else (case py_index colors segment_index of
                 Inl e \<Rightarrow> Inl e
               | Inr c1 \<Rightarrow>
                  (case py_index colors (segment_index + 1) of
                     Inl e \<Rightarrow> Inl e
                   | Inr c2 \<Rightarrow> interpolate_color c1 c2 segment_position)))"

text \<open>The loop over \<^verbatim>\<open>range(steps)\<close>; the first round that raises ends it.\<close>

fun gradient_loop :: "string list \<Rightarrow> int \<Rightarrow> int list \<Rightarrow> error + string list" where
  "gradient_loop colors steps [] = Inr []"
| "gradient_loop colors steps (i # rest) =
     (case gradient_color colors steps i of
        Inl e \<Rightarrow> Inl e
      | Inr c \<Rightarrow>
         (case gradient_loop colors steps rest of
            Inl e \<Rightarrow> Inl e
          | Inr cs \<Rightarrow> Inr (c # cs)))"

definition generate_gradient :: "string list \<Rightarrow> int \<Rightarrow> error + string list" where
  "generate_gradient colors steps =
     (if steps \<le> 0 then Inr []
      else if steps = 1 then
        (case py_index colors 0 of Inl e \<Rightarrow> Inl e | Inr c \<Rightarrow> Inr [c])
      else if length colors = 0 then Inr []
      else if length colors = 1 then
        (case py_index colors 0 of Inl e \<Rightarrow> Inl e | Inr c \<Rightarrow> Inr (replicate (nat steps) c))
      else gradient_loop colors steps [0..steps - 1])"

section \<open>The viewer (\<^verbatim>\<open>viewer.py\<close>)\<close>

text \<open>A loaded structure: the dictionary that \<^verbatim>\<open>addModel\<close> builds.\<close>

record model =
  data :: string
  format :: string
  keepH :: bool
  name :: string

text \<open>
  The attributes of a \<^verbatim>\<open>MolView\<close> object. In linear mode \<^verbatim>\<open>rows\<close> and \<^verbatim>\<open>cols\<close> are
  \<^verbatim>\<open>None\<close> and the attribute \<^verbatim>\<open>grid_models\<close> is never created nor read; the record holds
  the empty grid there. The rows of the grid are separate lists, so an assignment to a cell
  changes that cell only.
\<close>

record MolView =
  width :: int
  height :: int
  viewergrid :: "(int \<times> int) option"
  panel :: bool
  rows :: "int option"
  cols :: "int option"
  total_viewers :: int
  grid_models :: "model option list list"
  models :: "model list"
  current_model_index :: int
  color_mode :: string
  color_params :: "(string \<times> json) list"
  background_color :: string
  surface_enabled :: bool
  surface_opacity :: int
  illustrative_enabled :: bool
  spin_enabled :: bool
  spin_speed :: rat
  show_sequence :: bool
  show_animation :: bool
  remove_solvent :: bool
  style_settings :: "(string \<times> bool) list"

text \<open>\<^verbatim>\<open>MolView.__init__\<close>, for a grid argument that is absent or a pair of integers.\<close>

definition view :: "int \<Rightarrow> int \<Rightarrow> (int \<times> int) option \<Rightarrow> bool \<Rightarrow> MolView" where
  "view w h grid p =
     \<lparr>width = w, height = h, viewergrid = grid, panel = p,
      rows = (case grid of None \<Rightarrow> None | Some (r, c) \<Rightarrow> Some r),
      cols = (case grid of None \<Rightarrow> None | Some (r, c) \<Rightarrow> Some c),
      total_viewers = (case grid of None \<Rightarrow> 1 | Some (r, c) \<Rightarrow> r * c),
      grid_models = (case grid of None \<Rightarrow> []
                     | Some (r, c) \<Rightarrow> replicate (nat r) (replicate (nat c) None)),
      models = [], current_model_index = - 1,
      color_mode = ''element'', color_params = [],
      background_color = ''#FFFFFF'',
      surface_enabled = False, surface_opacity = 40,
      illustrative_enabled = False,
      spin_enabled = False, spin_speed = 1 / 5,
      show_sequence = False, show_animation = False, remove_solvent = False,
      style_settings = [(''cartoon'', True), (''stick'', False),
                        (''sphere'', False), (''line'', False)]\<rparr>"

text \<open>
  A method that mutates the viewer and may raise returns the exception, if any, together
  with the viewer as the call leaves it.
\<close>

type_synonym outcome = "error option \<times> MolView"

text \<open>The format handed to \<^verbatim>\<open>addModel\<close>, lower-cased and normalised.\<close>

definition normalize_format :: "string \<Rightarrow> error + string" where
  "normalize_format f0 =
     (let f = lower f0 in
      if f \<in> set [''cif'', ''mmcif''] then Inr ''mmcif''
      else if f \<notin> set [''pdb'', ''sdf''] then Inl (UnsupportedFormat f)
      else Inr f)"

text \<open>
  \<^verbatim>\<open>_get_next_available_cell\<close>: two nested loops over \<^verbatim>\<open>range(self.rows)\<close> and
  \<^verbatim>\<open>range(self.cols)\<close>, each a recursion on its counter. The inner loop returns the first
  column of the row whose cell holds \<^verbatim>\<open>None\<close>, the outer loop the first row that has one.
  Reading \<^verbatim>\<open>self.grid_models[row][col]\<close> raises where the grid has no such cell.
\<close>

function scan_cols :: "model option list list \<Rightarrow> int \<Rightarrow> int \<Rightarrow> int \<Rightarrow> error + int option" where
  "scan_cols g row col C =
     (if col < C then
        (case py_index g row of
           Inl e \<Rightarrow> Inl e
         | Inr r \<Rightarrow>
            (case py_index r col of
               Inl e \<Rightarrow> Inl e
             | Inr None \<Rightarrow> Inr (Some col)
             | Inr (Some m) \<Rightarrow> scan_cols g row (col + 1) C))
      else Inr None)"
  by pat_completeness auto
termination
  by (relation "measure (\<lambda>(g, row, col, C). nat (C - col))") auto

declare scan_cols.simps [simp del]

function scan_rows :: "model option list list \<Rightarrow> int \<Rightarrow> int \<Rightarrow> int \<Rightarrow> error + (int \<times> int) option" where
  "scan_rows g row R C =
     (if row < R then
        (case scan_cols g row 0 C of
           Inl e \<Rightarrow> Inl e
         | Inr (Some col) \<Rightarrow> Inr (Some (row, col))
         | Inr None \<Rightarrow> scan_rows g (row + 1) R C)
      else Inr None)"
  by pat_completeness auto
termination
  by (relation "measure (\<lambda>(g, row, R, C). nat (R - row))") auto

declare scan_rows.simps [simp del]

text \<open>
  The loops run over the attributes \<^verbatim>\<open>rows\<close> and \<^verbatim>\<open>cols\<close>, which the constructor sets
  together; \<^verbatim>\<open>range(None)\<close> is a \<^verbatim>\<open>TypeError\<close>.
\<close>

definition get_next_available_cell :: "MolView \<Rightarrow> error + (int \<times> int)" where
  "get_next_available_cell self =
     (case (rows self, cols self) of
        (Some R, Some C) \<Rightarrow>
          (case scan_rows (grid_models self) 0 R C of
             Inl e \<Rightarrow> Inl e
           | Inr (Some cell) \<Rightarrow> Inr cell
           | Inr None \<Rightarrow> Inl (GridFull R C))
      | _ \<Rightarrow> Inl TypeError)"

text \<open>\<^verbatim>\<open>self.grid_models[row][col] = model\<close>, for indices that are not negative.\<close>

definition grid_set :: "model option list list \<Rightarrow> int \<Rightarrow> int \<Rightarrow> model \<Rightarrow> error + model option list list" where
  "grid_set g row col m =
     (if nat row < length g then
        (if nat col < length (g ! nat row)
         then Inr (g[nat row := (g ! nat row)[nat col := Some m]])
         else Inl IndexError)
      else Inl IndexError)"

definition existing_count :: "model option list list \<Rightarrow> int" where
  "existing_count g = int (length [cell. row \<leftarrow> g, cell \<leftarrow> row, cell \<noteq> None])"

definition addModel ::
  "string \<Rightarrow> string option \<Rightarrow> bool \<Rightarrow> (int \<times> int) option \<Rightarrow> string option \<Rightarrow> MolView \<Rightarrow> outcome" where
  "addModel dat fmt keep viewer nm self =
     (case normalize_format (case fmt of None \<Rightarrow> detect_format dat | Some f \<Rightarrow> f) of
        Inl e \<Rightarrow> (Some e, self)
      | Inr f \<Rightarrow>
          if viewergrid self \<noteq> None then
            (let name1 =
                   (case nm of
                      Some n \<Rightarrow> n
                    | None \<Rightarrow>
                       (case viewer of
                          None \<Rightarrow> ''Structure '' @ str_int (existing_count (grid_models self) + 1)
                        | Some (row, col) \<Rightarrow>
                            ''Structure ('' @ str_int row @ '','' @ str_int col @ '')''));
                 m = \<lparr>data = dat, format = f, keepH = keep, name = name1\<rparr>
             in case (case viewer of None \<Rightarrow> get_next_available_cell self | Some cell \<Rightarrow> Inr cell) of
                  Inl e \<Rightarrow> (Some e, self)
                | Inr (row, col) \<Rightarrow>
                   (case (rows self, cols self) of
                      (Some R, Some C) \<Rightarrow>
                        if \<not> (0 \<le> row \<and> row < R \<and> 0 \<le> col \<and> col < C)
                        then (Some (OutOfBounds row col R C), self)
                        else (case grid_set (grid_models self) row col m of
                                Inl e \<Rightarrow> (Some e, self)
                              | Inr g \<Rightarrow> (None, self\<lparr>grid_models := g\<rparr>))
                    | _ \<Rightarrow> (Some TypeError, self)))
          else
            (let name1 = (case nm of
                            Some n \<Rightarrow> n
                          | None \<Rightarrow> ''Structure '' @ str_int (int (length (models self)) + 1));
                 m = \<lparr>data = dat, format = f, keepH = keep, name = name1\<rparr>
             in (None, self\<lparr>models := models self @ [m],
                             current_model_index := int (length (models self @ [m])) - 1\<rparr>)))"

text \<open>
  \<^verbatim>\<open>setColorMode\<close>: the theme is resolved and converted first; the two assignments follow.
\<close>

definition setColorMode :: "string \<Rightarrow> kwargs \<Rightarrow> MolView \<Rightarrow> outcome" where
  "setColorMode mode kw self =
     (case get_color_theme mode kw of
        Inl e \<Rightarrow> (Some e, self)
      | Inr theme \<Rightarrow>
         (case to_molstar_config theme of
            Inl e \<Rightarrow> (Some e, self)
          | Inr config \<Rightarrow>
              (None, self\<lparr>color_mode := config_name config,
                          color_params := config_params config\<rparr>)))"

definition clear :: "MolView \<Rightarrow> MolView" where
  "clear self = self\<lparr>models := [], current_model_index := - 1\<rparr>"

text \<open>
  The other setters. A dictionary is an association list; the assignment \<^verbatim>\<open>d[k] = v\<close> is
  \<^const>\<open>AList.update\<close>, which replaces the value of a key that is there and appends a new
  key at the end. None of these setters inspects a color.
\<close>













section \<open>Remote fetch (\<^verbatim>\<open>query.py\<close>)\<close>

text \<open>
  What \<^verbatim>\<open>urllib.request.urlopen\<close>, followed by reading and decoding the response, comes
  to for a URL: the decoded text, an \<^verbatim>\<open>HTTPError\<close> with its status code, or another
  exception. The network is a parameter of the two fetch functions.
\<close>

datatype url_result =
    Body string
  | HTTPFailure int string
  | OtherFailure string

text \<open>The URL that \<^verbatim>\<open>fetch_pdb\<close> builds from the normalised identifier and format.\<close>

definition rcsb_url :: "string \<Rightarrow> string \<Rightarrow> string" where
  "rcsb_url pdb_id fmt =
     (if fmt = ''pdb''
      then ''https://files.rcsb.org/download/'' @ pdb_id @ ''.pdb''
      else ''https://files.rcsb.org/download/'' @ pdb_id @ ''.cif'')"

definition fetch_pdb :: "(string \<Rightarrow> url_result) \<Rightarrow> string \<Rightarrow> string \<Rightarrow> error + string" where
  "fetch_pdb urlopen pdb_id0 format0 =
     (let pdb_id = upper (strip pdb_id0);
          fmt = lower format0
      in if fmt \<notin> set [''pdb'', ''mmcif'', ''cif''] then Inl (BadFetchFormat fmt)
         else
           let fmt1 = (if fmt = ''cif'' then ''mmcif'' else fmt);
               url = rcsb_url pdb_id fmt1
           in case urlopen url of
                Body text \<Rightarrow> Inr text
              | HTTPFailure code info \<Rightarrow>
                  if code = 404 then Inl (PdbNotFound pdb_id) else Inl (HTTPError code info)
              | OtherFailure info \<Rightarrow> Inl (OtherException info))"

text \<open>The URL that \<^verbatim>\<open>fetch_alphafold\<close> builds.\<close>

definition alphafold_url :: "string \<Rightarrow> int \<Rightarrow> string" where
  "alphafold_url uniprot_id version =
     ''https://alphafold.ebi.ac.uk/files/AF-'' @ uniprot_id
     @ ''-F1-model_v'' @ str_int version @ ''.cif''"

definition fetch_alphafold :: "(string \<Rightarrow> url_result) \<Rightarrow> string \<Rightarrow> int \<Rightarrow> error + string" where
  "fetch_alphafold urlopen uniprot_id0 version =
     (let uniprot_id = upper (strip uniprot_id0);
          url = alphafold_url uniprot_id version
      in case urlopen url of
           Body text \<Rightarrow> Inr text
         | HTTPFailure code info \<Rightarrow>
             if code = 404 then Inl (AlphaFoldNotFound uniprot_id version)
             else Inl (HTTPError code info)
         | OtherFailure info \<Rightarrow> Inl (OtherException info))"

section \<open>Notions used in the statements\<close>

text \<open>The seven mode names that \<^verbatim>\<open>get_color_theme\<close> dispatches on.\<close>

definition color_modes :: "string list" where
  "color_modes = [''custom'', ''element'', ''residue'', ''chain'', ''secondary'', ''rainbow'', ''plddt'']"

text \<open>
  A grid-mode viewer as the constructor builds it and \<^verbatim>\<open>addModel\<close> keeps it: \<open>R\<close> rows
  of \<open>C\<close> cells each.
\<close>

definition grid_ok :: "MolView \<Rightarrow> int \<Rightarrow> int \<Rightarrow> bool" where
  "grid_ok v R C \<longleftrightarrow>
     viewergrid v = Some (R, C) \<and> rows v = Some R \<and> cols v = Some C
     \<and> length (grid_models v) = nat R
     \<and> list_all (\<lambda>row. length row = nat C) (grid_models v)"

definition cell :: "model option list list \<Rightarrow> int \<Rightarrow> int \<Rightarrow> model option" where
  "cell g r c = g ! nat r ! nat c"

text \<open>The cells of an \<open>R\<close> by \<open>C\<close> grid.\<close>

definition cells :: "int \<Rightarrow> int \<Rightarrow> (int \<times> int) list" where
  "cells R C = [(r, c). r \<leftarrow> [0..R - 1], c \<leftarrow> [0..C - 1]]"

text \<open>Row-major order: an earlier row, or the same row and an earlier column.\<close>

definition row_major_before :: "int \<times> int \<Rightarrow> int \<times> int \<Rightarrow> bool" where
  "row_major_before a b \<longleftrightarrow> fst a < fst b \<or> (fst a = fst b \<and> snd a < snd b)"

text \<open>
  The first empty cell in row-major order: a cell of the grid that is empty, every cell
  before it being occupied.
\<close>

definition first_empty_cell :: "model option list list \<Rightarrow> int \<Rightarrow> int \<Rightarrow> int \<times> int \<Rightarrow> bool" where
  "first_empty_cell g R C rc \<longleftrightarrow>
     rc \<in> set (cells R C) \<and> cell g (fst rc) (snd rc) = None
     \<and> list_all (\<lambda>b. row_major_before b rc \<longrightarrow> cell g (fst b) (snd b) \<noteq> None) (cells R C)"

definition grid_full :: "model option list list \<Rightarrow> int \<Rightarrow> int \<Rightarrow> bool" where
  "grid_full g R C \<longleftrightarrow> list_all (\<lambda>b. cell g (fst b) (snd b) \<noteq> None) (cells R C)"

text \<open>
  Auto-placing a list of structures one after the other, in the format \<^verbatim>\<open>pdb\<close> and without
  names; the first call that raises ends the run.
\<close>

fun add_all :: "string list \<Rightarrow> MolView \<Rightarrow> outcome" where
  "add_all [] v = (None, v)"
| "add_all (d # ds) v =
     (case addModel d (Some ''pdb'') False None None v of
        (None, v') \<Rightarrow> add_all ds v'
      | (Some e, v') \<Rightarrow> (Some e, v'))"

text \<open>The payloads of the cells of a grid.\<close>

definition payloads :: "model option list list \<Rightarrow> string option list list" where
  "payloads g = map (map (map_option data)) g"

text \<open>A two by two grid viewer, as \<^verbatim>\<open>view(viewergrid=(2, 2))\<close> returns it.\<close>

definition grid22 :: MolView where
  "grid22 = view 800 600 (Some (2, 2)) False"

text \<open>The first line of a text that is not blank, if it has one.\<close>

definition first_nonblank_line :: "string \<Rightarrow> string option" where
  "first_nonblank_line d = find (\<lambda>l. strip l \<noteq> []) (split_nl d)"

text \<open>
  The two mmCIF rules of the detector, on the lines it scans: the first line starts with
  \<^verbatim>\<open>data_\<close>, or some line starts with \<^verbatim>\<open>loop_\<close>, \<^verbatim>\<open>_atom_site\<close> or \<^verbatim>\<open>_cell\<close>, upper and
  lower case alike.
\<close>

definition mmcif_marker :: "string \<Rightarrow> bool" where
  "mmcif_marker d \<longleftrightarrow>
     list_ex (\<lambda>l. prefix ''data_'' (lower l)) (take 1 (scan_lines d))
     \<or> list_ex (\<lambda>l. prefix ''loop_'' (lower l) \<or> prefix ''_atom_site'' (lower l)
                     \<or> prefix ''_cell'' (lower l)) (scan_lines d)"

text \<open>An SDF marker somewhere in the text, upper and lower case alike.\<close>

definition sdf_marker :: "string \<Rightarrow> bool" where
  "sdf_marker d \<longleftrightarrow>
     list_ex (\<lambda>m. sublist m (upper d)) [''$$$$'', ''M  END'', ''V2000'', ''V3000'']"





section \<open>Properties\<close>

subsection \<open>Strings and lines\<close>

text \<open>\<^const>\<open>rstrip\<close> by recursion on the text, and what the two strips do to each other.\<close>

lemma rstrip_Nil [simp]: "rstrip [] = []"
  by (simp add: rstrip_def)

lemma rstrip_Cons [simp]:
  "rstrip (c # cs) = (if is_space c \<and> rstrip cs = [] then [] else c # rstrip cs)"
  by (auto simp: rstrip_def dropWhile_append dropWhile_eq_Nil_conv)

lemma rstrip_Nil_iff: "rstrip s = [] \<longleftrightarrow> list_all is_space s"
  by (induction s) auto

lemma lstrip_Nil_iff: "lstrip s = [] \<longleftrightarrow> list_all is_space s"
  by (induction s) (auto simp: lstrip_def)

lemma lstrip_rstrip: "lstrip (rstrip s) = rstrip (lstrip s)"
proof (induction s)
  case Nil
  then show ?case by (simp add: lstrip_def)
next
  case (Cons c cs)
  show ?case
  proof (cases "is_space c")
    case True
    show ?thesis
    proof (cases "rstrip cs = []")
      case True
      with Cons have "rstrip (lstrip cs) = []" by (simp add: lstrip_def)
      with True \<open>is_space c\<close> show ?thesis by (simp add: lstrip_def)
    next
      case False
      with \<open>is_space c\<close> Cons show ?thesis by (simp add: lstrip_def)
    qed
  next
    case False
    then show ?thesis by (simp add: lstrip_def)
  qed
qed

lemma rstrip_idem: "rstrip (rstrip s) = rstrip s"
  by (induction s) auto

lemma lstrip_idem: "lstrip (lstrip s) = lstrip s"
  by (simp add: lstrip_def dropWhile_idem)

lemma strip_rstrip: "strip (rstrip s) = strip s"
  by (simp add: strip_def lstrip_rstrip rstrip_idem)

lemma strip_idem: "strip (strip s) = strip s"
  by (simp add: strip_def lstrip_rstrip rstrip_idem lstrip_idem)

lemma strip_Nil_iff: "strip s = [] \<longleftrightarrow> list_all is_space s"
proof -
  have "list_all is_space (dropWhile is_space s) \<longleftrightarrow> list_all is_space s"
    by (induction s) auto
  then show ?thesis by (simp add: strip_def rstrip_Nil_iff lstrip_def)
qed

lemma strip_space_Cons: "is_space c \<Longrightarrow> strip (c # s) = strip s"
  by (simp add: strip_def lstrip_def)

lemma split_nl_not_Nil: "split_nl s \<noteq> []"
  by (induction s) (auto split: list.splits)

lemma newline_is_space: "is_space (CHR 0x0A)"
  by (simp add: is_space_def)

text \<open>Stripping the text on the left strips its first non-blank line on the left.\<close>

lemma split_nl_lstrip:
  "find (\<lambda>l. strip l \<noteq> []) (split_nl d) = Some l \<Longrightarrow>
   \<exists>ls. split_nl (lstrip d) = lstrip l # ls"
proof (induction d arbitrary: l)
  case Nil
  then show ?case by (simp add: strip_def lstrip_def)
next
  case (Cons c cs)
  obtain l1 ls1 where sp: "split_nl cs = l1 # ls1"
    using split_nl_not_Nil [of cs] by (cases "split_nl cs") auto
  show ?case
  proof (cases "is_space c")
    case False
    then have "c \<noteq> CHR 0x0A" using newline_is_space by auto
    moreover from False have "strip (c # l1) \<noteq> []" by (simp add: strip_Nil_iff)
    ultimately show ?thesis using Cons.prems sp False by (auto simp: lstrip_def)
  next
    case True
    show ?thesis
    proof (cases "c = CHR 0x0A")
      case nl: True
      with Cons.prems have "find (\<lambda>l. strip l \<noteq> []) (split_nl cs) = Some l"
        by (simp add: strip_def lstrip_def)
      from Cons.IH [OF this] True show ?thesis by (simp add: lstrip_def)
    next
      case nnl: False
      show ?thesis
      proof (cases "strip l1 = []")
        case True
        with Cons.prems sp nnl \<open>is_space c\<close>
        have "find (\<lambda>l. strip l \<noteq> []) (split_nl cs) = Some l"
          by (simp add: strip_space_Cons)
        from Cons.IH [OF this] \<open>is_space c\<close> show ?thesis by (simp add: lstrip_def)
      next
        case False
        with Cons.prems sp nnl \<open>is_space c\<close> have l: "l = c # l1"
          by (simp add: strip_space_Cons)
        from False sp have "find (\<lambda>l. strip l \<noteq> []) (split_nl cs) = Some l1" by simp
        from Cons.IH [OF this] l \<open>is_space c\<close> show ?thesis by (simp add: lstrip_def)
      qed
    qed
  qed
qed

text \<open>Stripping the text on the right changes its first line by white space at the end only.\<close>

lemma hd_split_nl_Cons:
  "hd (split_nl (c # cs)) = (if c = CHR 0x0A then [] else c # hd (split_nl cs))"
  using split_nl_not_Nil [of cs] by (cases "split_nl cs") auto

lemma hd_split_nl_spaces: "list_all is_space s \<Longrightarrow> list_all is_space (hd (split_nl s))"
  by (induction s) (auto simp: hd_split_nl_Cons simp del: split_nl.simps(2))

lemma hd_split_nl_rstrip: "rstrip (hd (split_nl (rstrip t))) = rstrip (hd (split_nl t))"
proof (induction t)
  case Nil
  then show ?case by simp
next
  case (Cons c cs)
  show ?case
  proof (cases "is_space c \<and> rstrip cs = []")
    case True
    then have "list_all is_space (c # cs)" by (simp add: rstrip_Nil_iff)
    then have "list_all is_space (hd (split_nl (c # cs)))" by (rule hd_split_nl_spaces)
    then have "rstrip (hd (split_nl (c # cs))) = []" by (simp only: rstrip_Nil_iff)
    moreover from True have "rstrip (c # cs) = []" by simp
    ultimately show ?thesis by (simp del: split_nl.simps(2) rstrip_Cons)
  next
    case False
    then have r: "rstrip (c # cs) = c # rstrip cs" by auto
    have "rstrip (hd (split_nl (c # rstrip cs))) = rstrip (hd (split_nl (c # cs)))"
      using Cons.IH by (simp add: hd_split_nl_Cons del: split_nl.simps(2))
    with r show ?thesis by (simp only:)
  qed
qed

text \<open>The first scanned line is the first non-blank line of the text, stripped.\<close>

lemma scan_lines_first:
  assumes "first_nonblank_line d = Some l"
  shows "\<exists>rest. scan_lines d = strip l # rest"
proof -
  from assms have f: "find (\<lambda>l. strip l \<noteq> []) (split_nl d) = Some l"
    by (simp add: first_nonblank_line_def)
  then have nb: "strip l \<noteq> []" by (auto simp: find_Some_iff)
  from split_nl_lstrip [OF f] obtain ls where ls: "split_nl (lstrip d) = lstrip l # ls" ..
  obtain l0 ls0 where l0: "split_nl (strip d) = l0 # ls0"
    using split_nl_not_Nil [of "strip d"] by (cases "split_nl (strip d)") auto
  from hd_split_nl_rstrip [of "lstrip d"] ls l0
  have "rstrip l0 = strip l" by (simp add: strip_def)
  then have "strip (rstrip l0) = strip (strip l)" by simp
  then have s0: "strip l0 = strip l" by (simp add: strip_rstrip strip_idem)
  with nb l0 show ?thesis by (simp add: scan_lines_def)
qed

lemma scan_lines_blank:
  assumes "first_nonblank_line d = None"
  shows "scan_lines d = []"
proof -
  have sp: "list_all is_space s \<Longrightarrow> list_all (\<lambda>l. list_all is_space l) (split_nl s)" for s
    by (induction s) (auto split: list.splits)
  have cat: "list_all (\<lambda>l. list_all is_space l) (split_nl s) \<Longrightarrow> list_all is_space s" for s
    by (induction s) (auto simp: newline_is_space split: list.splits if_splits)
  from assms have "list_all (\<lambda>l. list_all is_space l) (split_nl d)"
    by (auto simp: first_nonblank_line_def find_None_iff strip_Nil_iff list_all_iff)
  then have "list_all is_space d" by (rule cat)
  then have "strip d = []" by (simp add: strip_Nil_iff)
  then show ?thesis by (simp add: scan_lines_def strip_def lstrip_def)
qed

text \<open>
  White space is neither an upper-case nor a lower-case letter, so a prefix without white
  space survives the strip of a line.
\<close>

lemma is_space_lower: "is_space c \<Longrightarrow> lower_char c = c"
  unfolding is_space_def
  by (simp only: list.set insert_iff empty_iff) (elim disjE FalseE; simp add: lower_char_def)

lemma is_space_upper: "is_space c \<Longrightarrow> upper_char c = c"
  unfolding is_space_def
  by (simp only: list.set insert_iff empty_iff) (elim disjE FalseE; simp add: upper_char_def)

lemma rstrip_keeps_prefix:
  "prefix p (lower l) \<Longrightarrow> list_all (\<lambda>c. \<not> is_space c) p \<Longrightarrow> prefix p (lower (rstrip l))"
proof (induction p arbitrary: l)
  case Nil
  then show ?case by simp
next
  case (Cons a p)
  from Cons.prems(1) obtain x l' where l: "l = x # l'" and a: "lower_char x = a"
    and p: "prefix p (lower l')"
    by (cases l) (auto simp: lower_def)
  from Cons.prems(2) a have "\<not> is_space x" using is_space_lower [of x] by auto
  with l a Cons.IH [OF p] Cons.prems(2) show ?case by (simp add: lower_def)
qed

lemma strip_keeps_prefix:
  assumes "prefix p (lower l)" and "list_all (\<lambda>c. \<not> is_space c) p"
  shows "prefix p (lower (strip l))"
proof (cases p)
  case Nil
  then show ?thesis by simp
next
  case (Cons a p')
  with assms(1) obtain x l' where l: "l = x # l'" and a: "lower_char x = a"
    by (cases l) (auto simp: lower_def)
  from assms(2) Cons a have "\<not> is_space x" using is_space_lower [of x] by auto
  with l have "strip l = rstrip l" by (simp add: strip_def lstrip_def)
  with rstrip_keeps_prefix [OF assms] show ?thesis by simp
qed

subsection \<open>Format detection\<close>

text \<open>
  A text without a scanned line is blank and holds no SDF marker; so the detector is a
  cascade of three tests: the mmCIF rules, then the SDF markers, then \<^verbatim>\<open>pdb\<close>.
\<close>

lemma blank_no_marker:
  assumes "scan_lines d = []"
  shows "\<not> sdf_marker d"
proof -
  have "first_nonblank_line d = None"
  proof (cases "first_nonblank_line d")
    case (Some l)
    from scan_lines_first [OF this] assms show ?thesis by simp
  qed simp
  then have "list_all (\<lambda>l. list_all is_space l) (split_nl d)"
    by (auto simp: first_nonblank_line_def find_None_iff strip_Nil_iff list_all_iff)
  moreover have "list_all (\<lambda>l. list_all is_space l) (split_nl s) \<Longrightarrow> list_all is_space s" for s
    by (induction s) (auto simp: newline_is_space split: list.splits if_splits)
  ultimately have "list_all is_space d" by blast
  then have sp: "list_all is_space (upper d)"
    by (auto simp: upper_def list_all_iff is_space_upper)
  have "\<not> sublist m (upper d)" if "\<exists>c \<in> set m. \<not> is_space c" for m
  proof
    assume "sublist m (upper d)"
    then have "set m \<subseteq> set (upper d)" by (auto simp: sublist_def)
    with that sp show False by (auto simp: list_all_iff)
  qed
  then show ?thesis by (simp add: sdf_marker_def is_space_def)
qed

lemma detect_format_cases:
  "detect_format d = (if mmcif_marker d then ''mmcif'' else if sdf_marker d then ''sdf'' else ''pdb'')"
proof (cases "scan_lines d")
  case Nil
  with blank_no_marker [OF Nil] show ?thesis
    by (simp add: detect_format_def mmcif_marker_def)
next
  case (Cons first rest)
  then show ?thesis
    by (simp add: detect_format_def mmcif_marker_def sdf_marker_def Let_def)
qed

text \<open>
  C1. The detector returns \<^verbatim>\<open>pdb\<close>, \<^verbatim>\<open>mmcif\<close> or \<^verbatim>\<open>sdf\<close> for every text, and tests the
  mmCIF rules before the SDF markers, and these before everything else. If the first
  non-blank line of the text starts with \<^verbatim>\<open>data_\<close> (in upper or lower case, with or
  without white space before it) the result is \<^verbatim>\<open>mmcif\<close>, whatever else the text holds.
  If no mmCIF rule matches and an SDF marker occurs anywhere in the text, the result is
  \<^verbatim>\<open>sdf\<close>, whatever PDB keywords the text holds. The text \<^verbatim>\<open>HEADER    HYDROLASE\<close> and the
  empty text give \<^verbatim>\<open>pdb\<close>.
\<close>

theorem detect_format_priority:
  "detect_format d \<in> {''pdb'', ''mmcif'', ''sdf''}
   \<and> detect_format d
       = (if mmcif_marker d then ''mmcif'' else if sdf_marker d then ''sdf'' else ''pdb'')
   \<and> (first_nonblank_line d = Some l \<and> prefix ''data_'' (lower l) \<longrightarrow> detect_format d = ''mmcif'')
   \<and> (first_nonblank_line d = Some l \<and> prefix ''data_'' (lower (strip l))
        \<longrightarrow> detect_format d = ''mmcif'')
   \<and> (\<not> mmcif_marker d \<and> sdf_marker d \<longrightarrow> detect_format d = ''sdf'')
   \<and> detect_format ''HEADER    HYDROLASE'' = ''pdb''
   \<and> detect_format [] = ''pdb''"
proof (intro conjI impI)
  show "detect_format d \<in> {''pdb'', ''mmcif'', ''sdf''}"
    by (simp add: detect_format_cases)
  show "detect_format d
       = (if mmcif_marker d then ''mmcif'' else if sdf_marker d then ''sdf'' else ''pdb'')"
    by (rule detect_format_cases)
  show st: "detect_format d = ''mmcif''"
    if "first_nonblank_line d = Some l \<and> prefix ''data_'' (lower (strip l))" for l
  proof -
    from that scan_lines_first [of d l] obtain rest where "scan_lines d = strip l # rest" by auto
    with that show ?thesis by (simp add: detect_format_def)
  qed
  show "detect_format d = ''mmcif''"
    if "first_nonblank_line d = Some l \<and> prefix ''data_'' (lower l)"
  proof -
    have "list_all (\<lambda>c. \<not> is_space c) ''data_''" by (simp add: is_space_def)
    with that have "prefix ''data_'' (lower (strip l))" by (intro strip_keeps_prefix) auto
    with that st show ?thesis by blast
  qed
  show "detect_format d = ''sdf''" if "\<not> mmcif_marker d \<and> sdf_marker d"
    using that by (simp add: detect_format_cases)
  show "detect_format ''HEADER    HYDROLASE'' = ''pdb''" by code_simp
  show "detect_format [] = ''pdb''" by code_simp
qed

text \<open>
  The theorem at three ambiguous texts: an mmCIF header (after a blank line, indented, in
  mixed case) before an SDF marker and a PDB record; an mmCIF header before an SDF marker and
  a PDB header; PDB records before an SDF marker in lower case.
\<close>

theorem detect_format_priority_witness:
  "first_nonblank_line ''\<newline>  Data_1ABC\<newline>$$$$\<newline>ATOM      1  N'' = Some ''  Data_1ABC''
   \<and> prefix ''data_'' (lower (strip ''  Data_1ABC''))
   \<and> detect_format ''\<newline>  Data_1ABC\<newline>$$$$\<newline>ATOM      1  N'' = ''mmcif''
   \<and> first_nonblank_line ''data_x\<newline>M  END\<newline>HEADER    HYDROLASE'' = Some ''data_x''
   \<and> prefix ''data_'' (lower ''data_x'')
   \<and> detect_format ''data_x\<newline>M  END\<newline>HEADER    HYDROLASE'' = ''mmcif''
   \<and> \<not> mmcif_marker ''HEADER    HYDROLASE\<newline>ATOM      1  N\<newline>m  end''
   \<and> sdf_marker ''HEADER    HYDROLASE\<newline>ATOM      1  N\<newline>m  end''
   \<and> detect_format ''HEADER    HYDROLASE\<newline>ATOM      1  N\<newline>m  end'' = ''sdf''"
proof -
  define d1 where "d1 = ''\<newline>  Data_1ABC\<newline>$$$$\<newline>ATOM      1  N''"
  define d2 where "d2 = ''data_x\<newline>M  END\<newline>HEADER    HYDROLASE''"
  define d3 where "d3 = ''HEADER    HYDROLASE\<newline>ATOM      1  N\<newline>m  end''"
  have a1: "first_nonblank_line d1 = Some ''  Data_1ABC''" unfolding d1_def by code_simp
  have a2: "prefix ''data_'' (lower (strip ''  Data_1ABC''))" by code_simp
  have b1: "first_nonblank_line d2 = Some ''data_x''" unfolding d2_def by code_simp
  have b2: "prefix ''data_'' (lower ''data_x'')" by code_simp
  have c1: "\<not> mmcif_marker d3" unfolding d3_def by code_simp
  have c2: "sdf_marker d3" unfolding d3_def by code_simp
  have a: "detect_format d1 = ''mmcif''"
    using detect_format_priority [where d = d1 and l = "''  Data_1ABC''"] a1 a2
    by blast
  have b: "detect_format d2 = ''mmcif''"
    using detect_format_priority [where d = d2 and l = "''data_x''"] b1 b2
    by blast
  have c: "detect_format d3 = ''sdf''"
    using detect_format_priority [where d = d3] c1 c2
    by blast
  note facts = a1 a2 a b1 b2 b c1 c2 c
  show ?thesis
    using facts [unfolded d1_def d2_def d3_def] by (intro conjI)
qed

subsection \<open>Color themes\<close>

text \<open>
  C4, as the code has it. The resolver accepts the mode name \<^verbatim>\<open>custom\<close> in any mix of
  upper and lower case and returns the single-color theme, whose color is \<^verbatim>\<open>#4ECDC4\<close>
  when none is given and whose renderer configuration is named \<^verbatim>\<open>uniform\<close>. The name
  \<^verbatim>\<open>uniform\<close> itself is not a mode name: the resolver rejects it as an unknown color mode.
\<close>

theorem get_color_theme_custom:
  "(lower mode = ''custom'' \<longrightarrow>
      get_color_theme mode kw
        = Inr (CustomColorTheme (case color kw of None \<Rightarrow> ''#4ECDC4'' | Some c \<Rightarrow> c)))
   \<and> (lower mode = ''uniform'' \<longrightarrow> get_color_theme mode kw = Inl (UnknownColorMode ''uniform''))
   \<and> to_molstar_config (CustomColorTheme ''#4ECDC4'')
        = Inr \<lparr>config_name = ''uniform'', config_params = [(''value'', JInt 0x4ECDC4)]\<rparr>"
proof (intro conjI impI)
  show "get_color_theme mode kw
        = Inr (CustomColorTheme (case color kw of None \<Rightarrow> ''#4ECDC4'' | Some c \<Rightarrow> c))"
    if "lower mode = ''custom''"
    using that by (simp add: get_color_theme_def)
  show "get_color_theme mode kw = Inl (UnknownColorMode ''uniform'')"
    if "lower mode = ''uniform''"
    using that by (simp add: get_color_theme_def)
  show "to_molstar_config (CustomColorTheme ''#4ECDC4'')
        = Inr \<lparr>config_name = ''uniform'', config_params = [(''value'', JInt 0x4ECDC4)]\<rparr>"
    by code_simp
qed

text \<open>The theorem at the inputs \<^verbatim>\<open>CuStOm\<close> and \<^verbatim>\<open>Uniform\<close>.\<close>

theorem get_color_theme_custom_witness:
  "lower ''CuStOm'' = ''custom''
   \<and> get_color_theme ''CuStOm'' no_kwargs = Inr (CustomColorTheme ''#4ECDC4'')
   \<and> lower ''Uniform'' = ''uniform''
   \<and> get_color_theme ''Uniform'' (no_kwargs\<lparr>color := Some ''#FF0000''\<rparr>) = Inl (UnknownColorMode ''uniform'')"
proof -
  have a: "lower ''CuStOm'' = ''custom''" by code_simp
  have b: "lower ''Uniform'' = ''uniform''" by code_simp
  have c: "color no_kwargs = None" by (simp add: no_kwargs_def)
  from get_color_theme_custom [of "''CuStOm''" no_kwargs] a c
  have d: "get_color_theme ''CuStOm'' no_kwargs = Inr (CustomColorTheme ''#4ECDC4'')" by simp
  from get_color_theme_custom [of "''Uniform''" "no_kwargs\<lparr>color := Some ''#FF0000''\<rparr>"] b
  have e: "get_color_theme ''Uniform'' (no_kwargs\<lparr>color := Some ''#FF0000''\<rparr>) = Inl (UnknownColorMode ''uniform'')"
    by simp
  from a b d e show ?thesis by simp
qed

text \<open>C4 as stated fails: the mode name \<^verbatim>\<open>uniform\<close> is rejected.\<close>

theorem get_color_theme_uniform_rejected:
  "get_color_theme ''uniform'' no_kwargs = Inl (UnknownColorMode ''uniform'')"
  by code_simp

subsection \<open>Setting the color mode\<close>

text \<open>
  C5. \<^verbatim>\<open>setColorMode\<close> is atomic. When it succeeds, the theme was resolved and converted
  and the viewer differs from the one before in exactly the color mode and the color
  parameters, both taken from the new configuration. When it fails, the viewer is the one
  before the call. An unknown mode name and the mode \<^verbatim>\<open>rainbow\<close> with a palette outside
  the registry both fail with a \<^verbatim>\<open>ValueError\<close>.
\<close>

theorem setColorMode_atomic:
  "(fst (setColorMode mode kw v) = None \<longrightarrow>
      (\<exists>theme config. get_color_theme mode kw = Inr theme \<and> to_molstar_config theme = Inr config
         \<and> snd (setColorMode mode kw v)
             = v\<lparr>color_mode := config_name config, color_params := config_params config\<rparr>))
   \<and> (fst (setColorMode mode kw v) \<noteq> None \<longrightarrow> snd (setColorMode mode kw v) = v)
   \<and> (lower mode \<notin> set color_modes \<longrightarrow>
        setColorMode mode kw v = (Some (UnknownColorMode (lower mode)), v))
   \<and> (lower mode = ''rainbow'' \<and> palette kw = Some p \<and> p \<notin> fst ` set RAINBOW_PALETTES \<longrightarrow>
        setColorMode mode kw v = (Some (UnknownPalette p), v))
   \<and> is_ValueError (UnknownColorMode (lower mode)) \<and> is_ValueError (UnknownPalette p)"
proof (intro conjI impI)
  show "\<exists>theme config. get_color_theme mode kw = Inr theme \<and> to_molstar_config theme = Inr config
         \<and> snd (setColorMode mode kw v)
             = v\<lparr>color_mode := config_name config, color_params := config_params config\<rparr>"
    if "fst (setColorMode mode kw v) = None"
    using that by (auto simp: setColorMode_def split: sum.splits)
  show "snd (setColorMode mode kw v) = v" if "fst (setColorMode mode kw v) \<noteq> None"
    using that by (auto simp: setColorMode_def split: sum.splits)
  show "setColorMode mode kw v = (Some (UnknownColorMode (lower mode)), v)"
    if "lower mode \<notin> set color_modes"
    using that by (simp add: setColorMode_def get_color_theme_def color_modes_def)
  show "setColorMode mode kw v = (Some (UnknownPalette p), v)"
    if "lower mode = ''rainbow'' \<and> palette kw = Some p \<and> p \<notin> fst ` set RAINBOW_PALETTES"
  proof -
    from that have "map_of RAINBOW_PALETTES p = None" by (simp add: map_of_eq_None_iff)
    with that show ?thesis
      by (simp add: setColorMode_def get_color_theme_def new_RainbowColorTheme_def)
  qed
qed simp_all

text \<open>
  The theorem at a successful call, at a palette outside the registry and at an unknown
  mode name.
\<close>

theorem setColorMode_atomic_witness:
  "setColorMode ''Rainbow'' (no_kwargs\<lparr>palette := Some ''blue-red''\<rparr>) (view 800 600 None False)
     = (None, (view 800 600 None False)
               \<lparr>color_mode := ''rainbow-sequence'',
                color_params := [(''palette'', JStr ''blue-red''),
                                 (''colors'', JList [JStr ''#0000FF'', JStr ''#FF0000''])]\<rparr>)
   \<and> setColorMode ''rainbow'' (no_kwargs\<lparr>palette := Some ''nonexistent''\<rparr>) (view 800 600 None False)
     = (Some (UnknownPalette ''nonexistent''), view 800 600 None False)
   \<and> setColorMode ''Shiny'' no_kwargs (view 800 600 None False)
     = (Some (UnknownColorMode ''shiny''), view 800 600 None False)"
proof -
  let ?v = "view 800 600 None False"
  let ?kw = "no_kwargs\<lparr>palette := Some ''blue-red''\<rparr>"
  have t: "get_color_theme ''Rainbow'' ?kw = Inr (RainbowColorTheme ''blue-red'' [''#0000FF'', ''#FF0000''])"
    by code_simp
  have ok: "fst (setColorMode ''Rainbow'' ?kw ?v) = None"
    by (simp add: setColorMode_def t)
  from setColorMode_atomic [of "''Rainbow''" ?kw ?v "''none''"] ok t
  have "snd (setColorMode ''Rainbow'' ?kw ?v)
          = ?v\<lparr>color_mode := ''rainbow-sequence'',
                color_params := [(''palette'', JStr ''blue-red''),
                                 (''colors'', JList [JStr ''#0000FF'', JStr ''#FF0000''])]\<rparr>"
    by auto
  with ok have a: "setColorMode ''Rainbow'' ?kw ?v
     = (None, ?v\<lparr>color_mode := ''rainbow-sequence'',
                color_params := [(''palette'', JStr ''blue-red''),
                                 (''colors'', JList [JStr ''#0000FF'', JStr ''#FF0000''])]\<rparr>)"
    by (simp add: prod_eq_iff)
  have l1: "lower ''rainbow'' = ''rainbow''" by code_simp
  have n1: "''nonexistent'' \<notin> fst ` set RAINBOW_PALETTES" by (simp add: RAINBOW_PALETTES_def)
  from setColorMode_atomic [of "''rainbow''" "no_kwargs\<lparr>palette := Some ''nonexistent''\<rparr>" ?v "''nonexistent''"] l1 n1
  have b: "setColorMode ''rainbow'' (no_kwargs\<lparr>palette := Some ''nonexistent''\<rparr>) ?v
     = (Some (UnknownPalette ''nonexistent''), ?v)"
    by simp
  have l2: "lower ''Shiny'' = ''shiny''" by code_simp
  have n2: "''shiny'' \<notin> set color_modes" by (simp add: color_modes_def)
  from setColorMode_atomic [of "''Shiny''" no_kwargs ?v "''x''"] l2 n2
  have c: "setColorMode ''Shiny'' no_kwargs ?v = (Some (UnknownColorMode ''shiny''), ?v)"
    by simp
  from a b c show ?thesis by simp
qed








subsection \<open>Gradients\<close>

text \<open>
  The edge cases of \<^verbatim>\<open>generate_gradient\<close> that hold: no steps, no colors; one step on a
  list that has a color; no colors and a step count other than one; one color.
\<close>

lemma generate_gradient_edge_cases:
  "steps \<le> 0 \<Longrightarrow> generate_gradient colors steps = Inr []"
  "generate_gradient (c # cs) 1 = Inr [c]"
  "steps \<noteq> 1 \<Longrightarrow> generate_gradient [] steps = Inr []"
  "generate_gradient [c] steps = Inr (replicate (nat steps) c)"
  by (auto simp: generate_gradient_def py_index_def)

text \<open>
  C7. With no colors and one step, the guard for one step runs before the guard for an
  empty list and reads \<^verbatim>\<open>colors[0]\<close>: the call raises \<^verbatim>\<open>IndexError\<close> instead of
  returning the empty list.
\<close>

theorem generate_gradient_empty_single_step:
  "generate_gradient [] 1 = Inl IndexError"
  by code_simp

text \<open>
  The blend of two colors: each channel moves linearly from the first color to the second
  and is then cut to an integer toward zero.
\<close>

lemma py_trunc_toward_zero:
  "0 \<le> x \<Longrightarrow> of_int (py_trunc x) \<le> x \<and> x < of_int (py_trunc x) + 1"
  "x \<le> 0 \<Longrightarrow> x \<le> of_int (py_trunc x) \<and> of_int (py_trunc x) - 1 < x"
  by (auto simp: py_trunc_def) linarith+

lemma interpolate_color_blend:
  "hex_to_rgb color1 = Inr (r1, g1, b1) \<Longrightarrow> hex_to_rgb color2 = Inr (r2, g2, b2) \<Longrightarrow>
   interpolate_color color1 color2 t =
     Inr (rgb_to_hex (py_trunc (of_int r1 + t * of_int (r2 - r1)))
                     (py_trunc (of_int g1 + t * of_int (g2 - g1)))
                     (py_trunc (of_int b1 + t * of_int (b2 - b1))))"
  by (simp add: interpolate_color_def)

text \<open>
  C8. \<^verbatim>\<open>generate_gradient(['#000000', '#FFFFFF'], 3)\<close> is
  \<^verbatim>\<open>['#000000', '#7F7F7F', '#FFFFFF']\<close>: the middle step blends the two colors with the
  factor one half, each channel is 127.5 before \<^verbatim>\<open>int\<close> truncates it to 127 (rounding
  would give 128), and 127 is written \<^verbatim>\<open>7F\<close>. Every intermediate value is a binary fraction, so the floating-point
  computation of the source is exact here.
\<close>

theorem generate_gradient_black_white:
  "generate_gradient [''#000000'', ''#FFFFFF''] 3 = Inr [''#000000'', ''#7F7F7F'', ''#FFFFFF'']
   \<and> gradient_color [''#000000'', ''#FFFFFF''] 3 1 = interpolate_color ''#000000'' ''#FFFFFF'' (1 / 2)
   \<and> interpolate_color ''#000000'' ''#FFFFFF'' (1 / 2) = Inr (rgb_to_hex 127 127 127)
   \<and> py_trunc (0 + 1 / 2 * 255) = 127
   \<and> round (0 + 1 / 2 * 255 :: rat) = 128"
  by code_simp

subsection \<open>Placing structures in a grid\<close>

text \<open>
  The search for the next cell, on a well-formed grid: the inner loop finds the first empty
  column at or after its start, or none; the outer loop the first row that has one.
\<close>

lemma set_cells: "set (cells R C) = {(r, c). 0 \<le> r \<and> r < R \<and> 0 \<le> c \<and> c < C}"
  by (auto simp: cells_def)

lemma py_index_nonneg:
  "0 \<le> i \<Longrightarrow> nat i < length xs \<Longrightarrow> py_index xs i = Inr (xs ! nat i)"
  by (auto simp: py_index_def)

lemma scan_cols_found:
  "0 \<le> row \<Longrightarrow> nat row < length g \<Longrightarrow> length (g ! nat row) = nat C \<Longrightarrow>
   0 \<le> col \<Longrightarrow> col \<le> c \<Longrightarrow> c < C \<Longrightarrow> cell g row c = None \<Longrightarrow>
   (\<And>c'. col \<le> c' \<Longrightarrow> c' < c \<Longrightarrow> cell g row c' \<noteq> None) \<Longrightarrow>
   scan_cols g row col C = Inr (Some c)"
proof (induction g row col C rule: scan_cols.induct)
  case (1 g row col C)
  have rw: "py_index g row = Inr (g ! nat row)"
    using "1.prems" by (simp add: py_index_nonneg)
  have cl: "py_index (g ! nat row) col = Inr (cell g row col)"
    using "1.prems" by (simp add: py_index_nonneg cell_def)
  show ?case
  proof (cases "col = c")
    case True
    with "1.prems" rw cl show ?thesis
      by (subst scan_cols.simps) simp
  next
    case False
    with "1.prems" have lt: "col < c" by simp
    with "1.prems" obtain m where m: "cell g row col = Some m" by fastforce
    from "1.prems" lt have "col < C" by simp
    from "1.IH" [OF this rw cl m] "1.prems" lt
    have "scan_cols g row (col + 1) C = Inr (Some c)" by simp
    with "1.prems" rw cl m show ?thesis
      by (subst scan_cols.simps) simp
  qed
qed

lemma scan_cols_none:
  "0 \<le> row \<Longrightarrow> nat row < length g \<Longrightarrow> length (g ! nat row) = nat C \<Longrightarrow>
   0 \<le> col \<Longrightarrow>
   (\<And>c'. col \<le> c' \<Longrightarrow> c' < C \<Longrightarrow> cell g row c' \<noteq> None) \<Longrightarrow>
   scan_cols g row col C = Inr None"
proof (induction g row col C rule: scan_cols.induct)
  case (1 g row col C)
  show ?case
  proof (cases "col < C")
    case False
    then show ?thesis by (subst scan_cols.simps) simp
  next
    case True
    have rw: "py_index g row = Inr (g ! nat row)"
      using "1.prems" by (simp add: py_index_nonneg)
    have cl: "py_index (g ! nat row) col = Inr (cell g row col)"
      using "1.prems" True by (simp add: py_index_nonneg cell_def)
    from "1.prems" True obtain m where m: "cell g row col = Some m" by fastforce
    from "1.IH" [OF True rw cl m] "1.prems"
    have "scan_cols g row (col + 1) C = Inr None" by simp
    with True rw cl m show ?thesis
      by (subst scan_cols.simps) simp
  qed
qed


lemma scan_rows_found:
  "length g = nat R \<Longrightarrow> list_all (\<lambda>rw. length rw = nat C) g \<Longrightarrow>
   0 \<le> row \<Longrightarrow> row \<le> r \<Longrightarrow> r < R \<Longrightarrow> 0 \<le> c \<Longrightarrow> c < C \<Longrightarrow> cell g r c = None \<Longrightarrow>
   (\<And>r' c'. row \<le> r' \<Longrightarrow> r' < R \<Longrightarrow> 0 \<le> c' \<Longrightarrow> c' < C \<Longrightarrow>
            r' < r \<or> (r' = r \<and> c' < c) \<Longrightarrow> cell g r' c' \<noteq> None) \<Longrightarrow>
   scan_rows g row R C = Inr (Some (r, c))"
proof (induction g row R C rule: scan_rows.induct)
  case (1 g row R C)
  from "1.prems" have inr: "nat row < length g" by simp
  with "1.prems" have len: "length (g ! nat row) = nat C" by (simp add: list_all_length)
  show ?case
  proof (cases "row = r")
    case True
    have "scan_cols g row 0 C = Inr (Some c)"
      using "1.prems" True inr len by (intro scan_cols_found) auto
    with "1.prems" True show ?thesis
      by (subst scan_rows.simps) simp
  next
    case False
    with "1.prems" have lt: "row < r" by simp
    have none: "scan_cols g row 0 C = Inr None"
      using "1.prems" lt inr len by (intro scan_cols_none) auto
    from "1.prems" lt have "row < R" by simp
    from "1.IH" [OF this none] "1.prems" lt
    have "scan_rows g (row + 1) R C = Inr (Some (r, c))" by simp
    with "1.prems" lt none show ?thesis
      by (subst scan_rows.simps) simp
  qed
qed

lemma scan_rows_none:
  "length g = nat R \<Longrightarrow> list_all (\<lambda>rw. length rw = nat C) g \<Longrightarrow> 0 \<le> row \<Longrightarrow>
   (\<And>r' c'. row \<le> r' \<Longrightarrow> r' < R \<Longrightarrow> 0 \<le> c' \<Longrightarrow> c' < C \<Longrightarrow> cell g r' c' \<noteq> None) \<Longrightarrow>
   scan_rows g row R C = Inr None"
proof (induction g row R C rule: scan_rows.induct)
  case (1 g row R C)
  show ?case
  proof (cases "row < R")
    case False
    then show ?thesis by (subst scan_rows.simps) simp
  next
    case True
    with "1.prems" have inr: "nat row < length g" by simp
    with "1.prems" have len: "length (g ! nat row) = nat C" by (simp add: list_all_length)
    have none: "scan_cols g row 0 C = Inr None"
      using "1.prems" True inr len by (intro scan_cols_none) auto
    from "1.IH" [OF True none] "1.prems"
    have "scan_rows g (row + 1) R C = Inr None" by simp
    with True none show ?thesis
      by (subst scan_rows.simps) simp
  qed
qed

text \<open>The two notions of the statements, written with quantifiers.\<close>

lemma first_empty_cell_iff:
  "first_empty_cell g R C (r, c) \<longleftrightarrow>
     0 \<le> r \<and> r < R \<and> 0 \<le> c \<and> c < C \<and> cell g r c = None
     \<and> (\<forall>r' c'. 0 \<le> r' \<and> r' < R \<and> 0 \<le> c' \<and> c' < C \<and> (r' < r \<or> (r' = r \<and> c' < c))
           \<longrightarrow> cell g r' c' \<noteq> None)"
  by (auto simp: first_empty_cell_def set_cells list_all_iff row_major_before_def)

lemma grid_full_iff:
  "grid_full g R C \<longleftrightarrow> (\<forall>r c. 0 \<le> r \<and> r < R \<and> 0 \<le> c \<and> c < C \<longrightarrow> cell g r c \<noteq> None)"
  by (auto simp: grid_full_def set_cells list_all_iff)

lemma next_cell_first_empty:
  assumes "grid_ok v R C" and "first_empty_cell (grid_models v) R C (r, c)"
  shows "get_next_available_cell v = Inr (r, c)"
proof -
  from assms(2) have fe: "0 \<le> r" "r < R" "0 \<le> c" "c < C" "cell (grid_models v) r c = None"
    and occ: "\<And>r' c'. 0 \<le> r' \<Longrightarrow> r' < R \<Longrightarrow> 0 \<le> c' \<Longrightarrow> c' < C \<Longrightarrow>
            r' < r \<or> (r' = r \<and> c' < c) \<Longrightarrow> cell (grid_models v) r' c' \<noteq> None"
    unfolding first_empty_cell_iff by blast+
  from assms(1) have ok: "rows v = Some R" "cols v = Some C" "length (grid_models v) = nat R"
    "list_all (\<lambda>rw. length rw = nat C) (grid_models v)"
    by (simp_all add: grid_ok_def)
  have "scan_rows (grid_models v) 0 R C = Inr (Some (r, c))"
    using ok(3,4) fe occ by (intro scan_rows_found) auto
  with ok show ?thesis by (simp add: get_next_available_cell_def)
qed

lemma next_cell_full:
  assumes "grid_ok v R C" and "grid_full (grid_models v) R C"
  shows "get_next_available_cell v = Inl (GridFull R C)"
proof -
  from assms(1) have ok: "rows v = Some R" "cols v = Some C" "length (grid_models v) = nat R"
    "list_all (\<lambda>rw. length rw = nat C) (grid_models v)"
    by (simp_all add: grid_ok_def)
  have "scan_rows (grid_models v) 0 R C = Inr None"
    using ok(3,4) assms(2) by (intro scan_rows_none) (auto simp: grid_full_iff)
  with ok show ?thesis by (simp add: get_next_available_cell_def)
qed

text \<open>
  The constructor builds a well-formed grid and \<^verbatim>\<open>addModel\<close> keeps it well-formed, whether
  it succeeds or fails.
\<close>

lemma grid_ok_view: "grid_ok (view w h (Some (R, C)) p) R C"
  by (simp add: grid_ok_def view_def list_all_iff)
lemma grid_ok_addModel:
  assumes "grid_ok v R C"
  shows "grid_ok (snd (addModel d fmt k pl nm v)) R C"
proof -
  have upd: "grid_ok (v\<lparr>grid_models := g'\<rparr>) R C"
    if "grid_set (grid_models v) r c m = Inr g'" for r c m g'
    using assms that
    by (auto simp: grid_ok_def grid_set_def list_all_length nth_list_update split: if_splits)
  from assms have "viewergrid v = Some (R, C)" "rows v = Some R" "cols v = Some C"
    by (simp_all add: grid_ok_def)
  then show ?thesis
    using assms upd
    by (auto simp: addModel_def Let_def split: sum.splits)
qed

text \<open>What \<^verbatim>\<open>addModel\<close> does on a well-formed grid, case by case.\<close>

lemma addModel_auto:
  assumes ok: "grid_ok v R C"
    and f: "normalize_format (case fmt of None \<Rightarrow> detect_format d | Some x \<Rightarrow> x) = Inr f"
    and fe: "first_empty_cell (grid_models v) R C (r, c)"
  shows "addModel d fmt k None nm v =
           (None, v\<lparr>grid_models := (grid_models v)
              [nat r := (grid_models v ! nat r)
                 [nat c := Some \<lparr>data = d, format = f, keepH = k,
                                 name = (case nm of
                                           Some n \<Rightarrow> n
                                         | None \<Rightarrow> ''Structure ''
                                             @ str_int (existing_count (grid_models v) + 1))\<rparr>]]\<rparr>)"
proof -
  from fe have rng: "0 \<le> r" "r < R" "0 \<le> c" "c < C"
    unfolding first_empty_cell_iff by blast+
  from ok have g: "viewergrid v = Some (R, C)" "rows v = Some R" "cols v = Some C"
    "length (grid_models v) = nat R" "list_all (\<lambda>rw. length rw = nat C) (grid_models v)"
    by (simp_all add: grid_ok_def)
  from g rng have inr: "nat r < length (grid_models v)" by simp
  with g have inc: "nat c < length (grid_models v ! nat r)"
    using rng by (simp add: list_all_length)
  from next_cell_first_empty [OF ok fe] f g rng inr inc show ?thesis
    by (cases nm) (simp_all add: addModel_def grid_set_def)
qed

lemma addModel_explicit:
  assumes ok: "grid_ok v R C"
    and f: "normalize_format (case fmt of None \<Rightarrow> detect_format d | Some x \<Rightarrow> x) = Inr f"
    and rng: "0 \<le> r" "r < R" "0 \<le> c" "c < C"
  shows "addModel d fmt k (Some (r, c)) nm v =
           (None, v\<lparr>grid_models := (grid_models v)
              [nat r := (grid_models v ! nat r)
                 [nat c := Some \<lparr>data = d, format = f, keepH = k,
                                 name = (case nm of
                                           Some n \<Rightarrow> n
                                         | None \<Rightarrow> ''Structure ('' @ str_int r @ '','' @ str_int c
                                             @ '')'')\<rparr>]]\<rparr>)"
proof -
  from ok have g: "viewergrid v = Some (R, C)" "rows v = Some R" "cols v = Some C"
    "length (grid_models v) = nat R" "list_all (\<lambda>rw. length rw = nat C) (grid_models v)"
    by (simp_all add: grid_ok_def)
  from g rng have inr: "nat r < length (grid_models v)" by simp
  with g have inc: "nat c < length (grid_models v ! nat r)"
    using rng by (simp add: list_all_length)
  from f g rng inr inc show ?thesis
    by (cases nm) (simp_all add: addModel_def grid_set_def)
qed

lemma addModel_full:
  assumes ok: "grid_ok v R C"
    and f: "normalize_format (case fmt of None \<Rightarrow> detect_format d | Some x \<Rightarrow> x) = Inr f"
    and full: "grid_full (grid_models v) R C"
  shows "addModel d fmt k None nm v = (Some (GridFull R C), v)"
proof -
  from ok have g: "viewergrid v = Some (R, C)" by (simp add: grid_ok_def)
  from next_cell_full [OF ok full] f g show ?thesis
    by (simp add: addModel_def)
qed

lemma addModel_out_of_bounds:
  assumes ok: "grid_ok v R C"
    and f: "normalize_format (case fmt of None \<Rightarrow> detect_format d | Some x \<Rightarrow> x) = Inr f"
    and out: "\<not> (0 \<le> r \<and> r < R \<and> 0 \<le> c \<and> c < C)"
  shows "addModel d fmt k (Some (r, c)) nm v = (Some (OutOfBounds r c R C), v)"
proof -
  from ok have g: "viewergrid v = Some (R, C)" "rows v = Some R" "cols v = Some C"
    by (simp_all add: grid_ok_def)
  from f g out show ?thesis
    by (simp add: addModel_def)
qed

text \<open>
  C2. In grid mode, \<^verbatim>\<open>addModel\<close> without a placement puts the structure in the first
  empty cell in row-major order and changes nothing else; when no cell is empty it fails
  with the capacity error and leaves the viewer as it was; a placement outside the grid
  fails with the out-of-bounds error. On a two by two grid, four structures placed
  automatically fill (0,0), (0,1), (1,0), (1,1) in this order, a fifth fails with the
  capacity error, and the placement (2,0) fails with the out-of-bounds error.
\<close>

theorem addModel_grid_placement:
  "(grid_ok v R C
      \<and> normalize_format (case fmt of None \<Rightarrow> detect_format d | Some x \<Rightarrow> x) = Inr f
      \<and> first_empty_cell (grid_models v) R C (r, c)
    \<longrightarrow> (\<exists>m. addModel d fmt k None nm v
               = (None, v\<lparr>grid_models := (grid_models v)
                           [nat r := (grid_models v ! nat r)[nat c := Some m]]\<rparr>)
             \<and> data m = d \<and> format m = f))
   \<and> (grid_ok v R C
      \<and> normalize_format (case fmt of None \<Rightarrow> detect_format d | Some x \<Rightarrow> x) = Inr f
      \<and> grid_full (grid_models v) R C
    \<longrightarrow> addModel d fmt k None nm v = (Some (GridFull R C), v))
   \<and> (grid_ok v R C
      \<and> normalize_format (case fmt of None \<Rightarrow> detect_format d | Some x \<Rightarrow> x) = Inr f
      \<and> \<not> (0 \<le> r \<and> r < R \<and> 0 \<le> c \<and> c < C)
    \<longrightarrow> addModel d fmt k (Some (r, c)) nm v = (Some (OutOfBounds r c R C), v))
   \<and> payloads (grid_models (snd (add_all [''s1''] grid22)))
       = [[Some ''s1'', None], [None, None]]
   \<and> payloads (grid_models (snd (add_all [''s1'', ''s2''] grid22)))
       = [[Some ''s1'', Some ''s2''], [None, None]]
   \<and> payloads (grid_models (snd (add_all [''s1'', ''s2'', ''s3''] grid22)))
       = [[Some ''s1'', Some ''s2''], [Some ''s3'', None]]
   \<and> payloads (grid_models (snd (add_all [''s1'', ''s2'', ''s3'', ''s4''] grid22)))
       = [[Some ''s1'', Some ''s2''], [Some ''s3'', Some ''s4'']]
   \<and> fst (add_all [''s1'', ''s2'', ''s3'', ''s4''] grid22) = None
   \<and> add_all [''s1'', ''s2'', ''s3'', ''s4'', ''s5''] grid22
       = (Some (GridFull 2 2), snd (add_all [''s1'', ''s2'', ''s3'', ''s4''] grid22))
   \<and> addModel ''s1'' (Some ''pdb'') False (Some (2, 0)) None grid22
       = (Some (OutOfBounds 2 0 2 2), grid22)"
proof (intro conjI impI)
  show "\<exists>m. addModel d fmt k None nm v
               = (None, v\<lparr>grid_models := (grid_models v)
                           [nat r := (grid_models v ! nat r)[nat c := Some m]]\<rparr>)
             \<and> data m = d \<and> format m = f"
    if "grid_ok v R C
      \<and> normalize_format (case fmt of None \<Rightarrow> detect_format d | Some x \<Rightarrow> x) = Inr f
      \<and> first_empty_cell (grid_models v) R C (r, c)"
    using that by (auto simp: addModel_auto)
  show "addModel d fmt k None nm v = (Some (GridFull R C), v)"
    if "grid_ok v R C
      \<and> normalize_format (case fmt of None \<Rightarrow> detect_format d | Some x \<Rightarrow> x) = Inr f
      \<and> grid_full (grid_models v) R C"
    using that by (auto intro: addModel_full)
  show "addModel d fmt k (Some (r, c)) nm v = (Some (OutOfBounds r c R C), v)"
    if "grid_ok v R C
      \<and> normalize_format (case fmt of None \<Rightarrow> detect_format d | Some x \<Rightarrow> x) = Inr f
      \<and> \<not> (0 \<le> r \<and> r < R \<and> 0 \<le> c \<and> c < C)"
    using that by (intro addModel_out_of_bounds [where f = f]) auto
  show "payloads (grid_models (snd (add_all [''s1''] grid22)))
       = [[Some ''s1'', None], [None, None]]"
    by code_simp
  show "payloads (grid_models (snd (add_all [''s1'', ''s2''] grid22)))
       = [[Some ''s1'', Some ''s2''], [None, None]]"
    by code_simp
  show "payloads (grid_models (snd (add_all [''s1'', ''s2'', ''s3''] grid22)))
       = [[Some ''s1'', Some ''s2''], [Some ''s3'', None]]"
    by code_simp
  show "payloads (grid_models (snd (add_all [''s1'', ''s2'', ''s3'', ''s4''] grid22)))
       = [[Some ''s1'', Some ''s2''], [Some ''s3'', Some ''s4'']]"
    by code_simp
  show "fst (add_all [''s1'', ''s2'', ''s3'', ''s4''] grid22) = None"
    by code_simp
  show "add_all [''s1'', ''s2'', ''s3'', ''s4'', ''s5''] grid22
       = (Some (GridFull 2 2), snd (add_all [''s1'', ''s2'', ''s3'', ''s4''] grid22))"
    by code_simp
  show "addModel ''s1'' (Some ''pdb'') False (Some (2, 0)) None grid22
       = (Some (OutOfBounds 2 0 2 2), grid22)"
    by code_simp
qed

text \<open>
  The theorem at the empty two by two grid, at the grid with four structures, and at the
  placement (0,2).
\<close>

theorem addModel_grid_placement_witness:
  "grid_ok grid22 2 2
   \<and> first_empty_cell (grid_models grid22) 2 2 (0, 0)
   \<and> (\<exists>m. addModel ''s1'' (Some ''pdb'') False None None grid22
            = (None, grid22\<lparr>grid_models := (grid_models grid22)
                               [nat 0 := (grid_models grid22 ! nat 0)[nat 0 := Some m]]\<rparr>)
          \<and> data m = ''s1'' \<and> format m = ''pdb'')
   \<and> grid_ok (snd (add_all [''s1'', ''s2'', ''s3'', ''s4''] grid22)) 2 2
   \<and> grid_full (grid_models (snd (add_all [''s1'', ''s2'', ''s3'', ''s4''] grid22))) 2 2
   \<and> addModel ''s5'' (Some ''pdb'') False None None (snd (add_all [''s1'', ''s2'', ''s3'', ''s4''] grid22))
        = (Some (GridFull 2 2), snd (add_all [''s1'', ''s2'', ''s3'', ''s4''] grid22))
   \<and> addModel ''s1'' (Some ''pdb'') False (Some (0, 2)) None grid22
        = (Some (OutOfBounds 0 2 2 2), grid22)"
proof -
  let ?v4 = "snd (add_all [''s1'', ''s2'', ''s3'', ''s4''] grid22)"
  have f: "normalize_format (case Some ''pdb'' of None \<Rightarrow> detect_format x | Some x \<Rightarrow> x) = Inr ''pdb''"
    for x by code_simp
  have ok: "grid_ok grid22 2 2" by code_simp
  have fe: "first_empty_cell (grid_models grid22) 2 2 (0, 0)" by code_simp
  have ok4: "grid_ok ?v4 2 2" by code_simp
  have full: "grid_full (grid_models ?v4) 2 2" by code_simp
  from addModel_grid_placement [where v = grid22 and R = 2 and C = 2 and fmt = "Some ''pdb''" and d = "''s1''" and f = "''pdb''" and r = 0 and c = 0 and k = False and nm = None] ok fe f
  have a: "\<exists>m. addModel ''s1'' (Some ''pdb'') False None None grid22
            = (None, grid22\<lparr>grid_models := (grid_models grid22)
                               [nat 0 := (grid_models grid22 ! nat 0)[nat 0 := Some m]]\<rparr>)
          \<and> data m = ''s1'' \<and> format m = ''pdb''"
    by simp
  from addModel_grid_placement [where v = ?v4 and R = 2 and C = 2 and fmt = "Some ''pdb''" and d = "''s5''" and f = "''pdb''" and r = 0 and c = 0 and k = False and nm = None] ok4 full f
  have b: "addModel ''s5'' (Some ''pdb'') False None None ?v4 = (Some (GridFull 2 2), ?v4)"
    by simp
  from addModel_grid_placement [where v = grid22 and R = 2 and C = 2 and fmt = "Some ''pdb''" and d = "''s1''" and f = "''pdb''" and r = 0 and c = 2 and k = False and nm = None] ok f
  have c: "addModel ''s1'' (Some ''pdb'') False (Some (0, 2)) None grid22
        = (Some (OutOfBounds 0 2 2 2), grid22)"
    by simp
  from ok fe a ok4 full b c show ?thesis by blast
qed

text \<open>
  C3, as the code has it. Without an explicit name, a structure is named
  \<^verbatim>\<open>Structure n\<close>, where \<open>n\<close> is one more than the number of structures in the list
  (linear mode) or one more than the number of occupied cells (grid mode, placed
  automatically); a structure placed explicitly at \<open>(row, col)\<close> of a grid is named
  \<^verbatim>\<open>Structure (row,col)\<close>.
\<close>

theorem addModel_default_name:
  "(viewergrid v = None
      \<and> normalize_format (case fmt of None \<Rightarrow> detect_format d | Some x \<Rightarrow> x) = Inr f
    \<longrightarrow> addModel d fmt k pl None v
          = (None, v\<lparr>models := models v
                        @ [\<lparr>data = d, format = f, keepH = k,
                            name = ''Structure '' @ str_int (int (length (models v)) + 1)\<rparr>],
                      current_model_index := int (length (models v))\<rparr>))
   \<and> (grid_ok v R C
      \<and> normalize_format (case fmt of None \<Rightarrow> detect_format d | Some x \<Rightarrow> x) = Inr f
      \<and> first_empty_cell (grid_models v) R C (r, c)
    \<longrightarrow> addModel d fmt k None None v
          = (None, v\<lparr>grid_models := (grid_models v)
               [nat r := (grid_models v ! nat r)
                  [nat c := Some \<lparr>data = d, format = f, keepH = k,
                                  name = ''Structure ''
                                    @ str_int (existing_count (grid_models v) + 1)\<rparr>]]\<rparr>))
   \<and> (grid_ok v R C
      \<and> normalize_format (case fmt of None \<Rightarrow> detect_format d | Some x \<Rightarrow> x) = Inr f
      \<and> 0 \<le> r \<and> r < R \<and> 0 \<le> c \<and> c < C
    \<longrightarrow> addModel d fmt k (Some (r, c)) None v
          = (None, v\<lparr>grid_models := (grid_models v)
               [nat r := (grid_models v ! nat r)
                  [nat c := Some \<lparr>data = d, format = f, keepH = k,
                                  name = ''Structure ('' @ str_int r @ '','' @ str_int c
                                    @ '')''\<rparr>]]\<rparr>))"
proof (intro conjI impI)
  show "addModel d fmt k pl None v
          = (None, v\<lparr>models := models v
                        @ [\<lparr>data = d, format = f, keepH = k,
                            name = ''Structure '' @ str_int (int (length (models v)) + 1)\<rparr>],
                      current_model_index := int (length (models v))\<rparr>)"
    if "viewergrid v = None
      \<and> normalize_format (case fmt of None \<Rightarrow> detect_format d | Some x \<Rightarrow> x) = Inr f"
    using that by (simp add: addModel_def)
  show "addModel d fmt k None None v
          = (None, v\<lparr>grid_models := (grid_models v)
               [nat r := (grid_models v ! nat r)
                  [nat c := Some \<lparr>data = d, format = f, keepH = k,
                                  name = ''Structure ''
                                    @ str_int (existing_count (grid_models v) + 1)\<rparr>]]\<rparr>)"
    if "grid_ok v R C
      \<and> normalize_format (case fmt of None \<Rightarrow> detect_format d | Some x \<Rightarrow> x) = Inr f
      \<and> first_empty_cell (grid_models v) R C (r, c)"
    using that addModel_auto [where v = v and R = R and C = C and fmt = fmt and d = d and f = f and r = r and c = c and k = k and nm = None] by simp
  show "addModel d fmt k (Some (r, c)) None v
          = (None, v\<lparr>grid_models := (grid_models v)
               [nat r := (grid_models v ! nat r)
                  [nat c := Some \<lparr>data = d, format = f, keepH = k,
                                  name = ''Structure ('' @ str_int r @ '','' @ str_int c
                                    @ '')''\<rparr>]]\<rparr>)"
    if "grid_ok v R C
      \<and> normalize_format (case fmt of None \<Rightarrow> detect_format d | Some x \<Rightarrow> x) = Inr f
      \<and> 0 \<le> r \<and> r < R \<and> 0 \<le> c \<and> c < C"
    using that addModel_explicit [where v = v and R = R and C = C and fmt = fmt and d = d and f = f and r = r and c = c and k = k and nm = None] by simp
qed

text \<open>
  The theorem at the second structure of a linear viewer, at the second structure placed
  automatically in a grid, and at the explicit placement (1,0).
\<close>

theorem addModel_default_name_witness:
  "models (snd (addModel ''ATOM'' (Some ''pdb'') False None None
                 (snd (addModel ''ATOM'' (Some ''pdb'') False None None (view 800 600 None False)))))
     = [\<lparr>data = ''ATOM'', format = ''pdb'', keepH = False, name = ''Structure 1''\<rparr>,
        \<lparr>data = ''ATOM'', format = ''pdb'', keepH = False, name = ''Structure 2''\<rparr>]
   \<and> grid_models (snd (addModel ''s2'' (Some ''pdb'') False None None (snd (add_all [''s1''] grid22))))
     = [[Some \<lparr>data = ''s1'', format = ''pdb'', keepH = False, name = ''Structure 1''\<rparr>,
         Some \<lparr>data = ''s2'', format = ''pdb'', keepH = False, name = ''Structure 2''\<rparr>],
        [None, None]]
   \<and> grid_models (snd (addModel ''ATOM'' (Some ''pdb'') False (Some (1, 0)) None grid22))
     = [[None, None],
        [Some \<lparr>data = ''ATOM'', format = ''pdb'', keepH = False, name = ''Structure (1,0)''\<rparr>, None]]"
proof -
  define v0 where "v0 = view 800 600 None False"
  define v1 where "v1 = snd (addModel ''ATOM'' (Some ''pdb'') False None None v0)"
  define g1 where "g1 = snd (add_all [''s1''] grid22)"
  have f: "normalize_format (case Some ''pdb'' of None \<Rightarrow> detect_format x | Some x \<Rightarrow> x) = Inr ''pdb''"
    for x by code_simp
  have n1: "str_int 1 = ''1''" and n2: "str_int 2 = ''2''" and n0: "str_int 0 = ''0''"
    by code_simp+
  have lin0: "viewergrid v0 = None" and m0: "models v0 = []"
    by (simp_all add: v0_def view_def)
  from addModel_default_name [where v = v0 and fmt = "Some ''pdb''" and d = "''ATOM''"
      and f = "''pdb''" and k = False and pl = None] lin0 f
  have s1: "addModel ''ATOM'' (Some ''pdb'') False None None v0
      = (None, v0\<lparr>models := models v0
                        @ [\<lparr>data = ''ATOM'', format = ''pdb'', keepH = False,
                            name = ''Structure '' @ str_int (int (length (models v0)) + 1)\<rparr>],
                      current_model_index := int (length (models v0))\<rparr>)"
    by simp
  from s1 m0 n1 lin0
  have m1: "models v1 = [\<lparr>data = ''ATOM'', format = ''pdb'', keepH = False, name = ''Structure 1''\<rparr>]"
    and lin1: "viewergrid v1 = None"
    by (simp_all add: v1_def)
  from addModel_default_name [where v = v1 and fmt = "Some ''pdb''" and d = "''ATOM''"
      and f = "''pdb''" and k = False and pl = None] lin1 f
  have "addModel ''ATOM'' (Some ''pdb'') False None None v1
      = (None, v1\<lparr>models := models v1
                        @ [\<lparr>data = ''ATOM'', format = ''pdb'', keepH = False,
                            name = ''Structure '' @ str_int (int (length (models v1)) + 1)\<rparr>],
                      current_model_index := int (length (models v1))\<rparr>)"
    by simp
  with m1 n2 have a: "models (snd (addModel ''ATOM'' (Some ''pdb'') False None None v1))
     = [\<lparr>data = ''ATOM'', format = ''pdb'', keepH = False, name = ''Structure 1''\<rparr>,
        \<lparr>data = ''ATOM'', format = ''pdb'', keepH = False, name = ''Structure 2''\<rparr>]"
    by simp
  have ok1: "grid_ok g1 2 2" unfolding g1_def by code_simp
  have fe1: "first_empty_cell (grid_models g1) 2 2 (0, 1)" unfolding g1_def by code_simp
  have gm1: "grid_models g1
      = [[Some \<lparr>data = ''s1'', format = ''pdb'', keepH = False, name = ''Structure 1''\<rparr>, None],
         [None, None]]"
    unfolding g1_def by code_simp
  have "str_int (existing_count (grid_models g1) + 1) = ''2''" unfolding g1_def by code_simp
  then have ec: "str_int (existing_count
      [[Some \<lparr>data = ''s1'', format = ''pdb'', keepH = False, name = ''Structure 1''\<rparr>, None],
       [None, None]] + 1) = ''2''"
    unfolding gm1 .
  from addModel_default_name [where v = g1 and fmt = "Some ''pdb''" and d = "''s2''"
      and f = "''pdb''" and k = False and R = 2 and C = 2 and r = 0 and c = 1] ok1 fe1 f
  have "addModel ''s2'' (Some ''pdb'') False None None g1
          = (None, g1\<lparr>grid_models := (grid_models g1)
               [nat 0 := (grid_models g1 ! nat 0)
                  [nat 1 := Some \<lparr>data = ''s2'', format = ''pdb'', keepH = False,
                                  name = ''Structure ''
                                    @ str_int (existing_count (grid_models g1) + 1)\<rparr>]]\<rparr>)"
    by simp
  then have b: "grid_models (snd (addModel ''s2'' (Some ''pdb'') False None None g1))
     = [[Some \<lparr>data = ''s1'', format = ''pdb'', keepH = False, name = ''Structure 1''\<rparr>,
         Some \<lparr>data = ''s2'', format = ''pdb'', keepH = False, name = ''Structure 2''\<rparr>],
        [None, None]]"
    by (simp add: ec gm1)
  have ok0: "grid_ok grid22 2 2" by code_simp
  have gm0: "grid_models grid22 = [[None, None], [None, None]]" by code_simp
  from addModel_default_name [where v = grid22 and fmt = "Some ''pdb''" and d = "''ATOM''"
      and f = "''pdb''" and k = False and R = 2 and C = 2 and r = 1 and c = 0] ok0 f
  have "addModel ''ATOM'' (Some ''pdb'') False (Some (1, 0)) None grid22
          = (None, grid22\<lparr>grid_models := (grid_models grid22)
               [nat 1 := (grid_models grid22 ! nat 1)
                  [nat 0 := Some \<lparr>data = ''ATOM'', format = ''pdb'', keepH = False,
                                  name = ''Structure ('' @ str_int 1 @ '','' @ str_int 0
                                    @ '')''\<rparr>]]\<rparr>)"
    by simp
  then have c: "grid_models (snd (addModel ''ATOM'' (Some ''pdb'') False (Some (1, 0)) None grid22))
     = [[None, None],
        [Some \<lparr>data = ''ATOM'', format = ''pdb'', keepH = False, name = ''Structure (1,0)''\<rparr>, None]]"
    by (simp add: n1 n0 gm0)
  from a b c show ?thesis unfolding v1_def v0_def g1_def by simp
qed

text \<open>
  C3 as stated fails: the structure that is placed automatically in cell (0,0) of an empty
  grid is named \<^verbatim>\<open>Structure 1\<close>, not \<^verbatim>\<open>Structure (0,0)\<close>.
\<close>

theorem addModel_grid_auto_name:
  "grid_models (snd (addModel ''ATOM'' (Some ''pdb'') False None None grid22))
     = [[Some \<lparr>data = ''ATOM'', format = ''pdb'', keepH = False, name = ''Structure 1''\<rparr>, None],
        [None, None]]
   \<and> get_next_available_cell grid22 = Inr (0, 0)
   \<and> ''Structure 1'' \<noteq> ''Structure (0,0)''"
  by code_simp

subsection \<open>Clearing the viewer\<close>

text \<open>
  C10. \<^verbatim>\<open>clear\<close> empties the list of models and sets the index of the active model to
  -1. Every other attribute is as before: the grid and its dimensions, the size, the
  color mode and its parameters, the background, the surface, the style and the animation
  settings. A structure placed in a cell of a grid is still there after \<^verbatim>\<open>clear\<close>.
\<close>

theorem clear_frame:
  "models (clear v) = [] \<and> current_model_index (clear v) = - 1
   \<and> grid_models (clear v) = grid_models v
   \<and> viewergrid (clear v) = viewergrid v \<and> rows (clear v) = rows v \<and> cols (clear v) = cols v
   \<and> total_viewers (clear v) = total_viewers v
   \<and> width (clear v) = width v \<and> height (clear v) = height v \<and> panel (clear v) = panel v
   \<and> color_mode (clear v) = color_mode v \<and> color_params (clear v) = color_params v
   \<and> background_color (clear v) = background_color v
   \<and> surface_enabled (clear v) = surface_enabled v \<and> surface_opacity (clear v) = surface_opacity v
   \<and> illustrative_enabled (clear v) = illustrative_enabled v
   \<and> spin_enabled (clear v) = spin_enabled v \<and> spin_speed (clear v) = spin_speed v
   \<and> show_sequence (clear v) = show_sequence v \<and> show_animation (clear v) = show_animation v
   \<and> remove_solvent (clear v) = remove_solvent v
   \<and> style_settings (clear v) = style_settings v
   \<and> clear v = v\<lparr>models := [], current_model_index := - 1\<rparr>
   \<and> grid_models (clear (snd (addModel d (Some ''pdb'') k (Some (0, 0)) (Some n)
                                  (view w h (Some (2, 2)) p))))
       = [[Some \<lparr>data = d, format = ''pdb'', keepH = k, name = n\<rparr>, None], [None, None]]"
proof -
  have "normalize_format ''pdb'' = Inr ''pdb''" by code_simp
  then have "grid_models (snd (addModel d (Some ''pdb'') k (Some (0, 0)) (Some n)
                                  (view w h (Some (2, 2)) p)))
       = [[Some \<lparr>data = d, format = ''pdb'', keepH = k, name = n\<rparr>, None], [None, None]]"
    by (simp add: addModel_def view_def grid_set_def numeral_2_eq_2)
  then show ?thesis by (simp add: clear_def)
qed

subsection \<open>Remote fetch\<close>

text \<open>
  C9. When the request for the URL of an identifier fails with an HTTP error, \<^verbatim>\<open>fetch_pdb\<close>
  (for a supported format) and \<^verbatim>\<open>fetch_alphafold\<close> raise a \<^verbatim>\<open>ValueError\<close> that names the
  identifier if the status is 404, and otherwise raise the HTTP error they received, with
  the same status and content. The former is a \<^verbatim>\<open>ValueError\<close>, the latter is not.
\<close>

theorem fetch_http_failure:
  "(lower fmt \<in> set [''pdb'', ''mmcif'', ''cif'']
      \<and> urlopen (rcsb_url (upper (strip pdb_id)) (if lower fmt = ''cif'' then ''mmcif'' else lower fmt))
          = HTTPFailure code info
    \<longrightarrow> fetch_pdb urlopen pdb_id fmt
          = Inl (if code = 404 then PdbNotFound (upper (strip pdb_id)) else HTTPError code info))
   \<and> (urlopen (alphafold_url (upper (strip uniprot_id)) version) = HTTPFailure code info
    \<longrightarrow> fetch_alphafold urlopen uniprot_id version
          = Inl (if code = 404 then AlphaFoldNotFound (upper (strip uniprot_id)) version
                 else HTTPError code info))
   \<and> is_ValueError (PdbNotFound (upper (strip pdb_id)))
   \<and> is_ValueError (AlphaFoldNotFound (upper (strip uniprot_id)) version)
   \<and> \<not> is_ValueError (HTTPError code info)"
  by (simp add: fetch_pdb_def fetch_alphafold_def Let_def)

text \<open>The theorem at a server that answers 404 and at one that answers 503.\<close>

theorem fetch_http_failure_witness:
  "fetch_pdb (\<lambda>u. HTTPFailure 404 ''Not Found'') ''1ubq'' ''pdb'' = Inl (PdbNotFound ''1UBQ'')
   \<and> fetch_alphafold (\<lambda>u. HTTPFailure 404 ''Not Found'') ''p00520'' 4 = Inl (AlphaFoldNotFound ''P00520'' 4)
   \<and> fetch_pdb (\<lambda>u. HTTPFailure 503 ''Service Unavailable'') ''1ubq'' ''cif''
        = Inl (HTTPError 503 ''Service Unavailable'')
   \<and> fetch_alphafold (\<lambda>u. HTTPFailure 503 ''Service Unavailable'') ''p00520'' 4
        = Inl (HTTPError 503 ''Service Unavailable'')"
proof -
  have l1: "lower ''pdb'' = ''pdb''" and l2: "lower ''cif'' = ''cif''" by code_simp+
  have u1: "upper (strip ''1ubq'') = ''1UBQ''" and u2: "upper (strip ''p00520'') = ''P00520''"
    by code_simp+
  from fetch_http_failure [of "''pdb''" "\<lambda>u. HTTPFailure 404 ''Not Found''" "''1ubq''" 404
      "''Not Found''" "''p00520''" 4] l1 u1 u2
  have a: "fetch_pdb (\<lambda>u. HTTPFailure 404 ''Not Found'') ''1ubq'' ''pdb'' = Inl (PdbNotFound ''1UBQ'')
    \<and> fetch_alphafold (\<lambda>u. HTTPFailure 404 ''Not Found'') ''p00520'' 4 = Inl (AlphaFoldNotFound ''P00520'' 4)"
    by simp
  from fetch_http_failure [of "''cif''" "\<lambda>u. HTTPFailure 503 ''Service Unavailable''" "''1ubq''" 503
      "''Service Unavailable''" "''p00520''" 4] l2
  have b: "fetch_pdb (\<lambda>u. HTTPFailure 503 ''Service Unavailable'') ''1ubq'' ''cif''
        = Inl (HTTPError 503 ''Service Unavailable'')
     \<and> fetch_alphafold (\<lambda>u. HTTPFailure 503 ''Service Unavailable'') ''p00520'' 4
        = Inl (HTTPError 503 ''Service Unavailable'')"
    by simp
  from a b show ?thesis by simp
qed

end
